theory Spec2Isabelle
  imports Complex_Main
begin

section \<open>Tensor elements\<close>

text \<open>
  The elements of a torch tensor or numpy array are IEEE floats.  They are modelled as
  exact reals extended with the two infinities and NaN: a division by zero on a tensor
  raises nothing, it yields an infinity or NaN, and the model keeps that.  This is the
  arithmetic of the code without rounding, and with every zero taken as \<open>+0\<close>.
  Where a property depends on them, the rounding to float32 is added by \<open>r32\<close> and
  the sign of zero by \<open>sfl\<close> (both below).
\<close>

datatype fl = Fin real | PInf | NInf | NaN

fun fneg :: "fl \<Rightarrow> fl" where
  "fneg (Fin a) = Fin (- a)"
| "fneg PInf = NInf"
| "fneg NInf = PInf"
| "fneg NaN = NaN"

text \<open>An infinity \<open>i\<close> multiplied by the finite number \<open>a\<close>.\<close>

definition inf_times :: "fl \<Rightarrow> real \<Rightarrow> fl" where
  "inf_times i a = (if a = 0 then NaN else if 0 < a then i else fneg i)"

fun fadd :: "fl \<Rightarrow> fl \<Rightarrow> fl" where
  "fadd (Fin a) (Fin b) = Fin (a + b)"
| "fadd NaN _ = NaN"
| "fadd _ NaN = NaN"
| "fadd PInf NInf = NaN"
| "fadd NInf PInf = NaN"
| "fadd PInf _ = PInf"
| "fadd NInf _ = NInf"
| "fadd (Fin a) i = i"

definition fsub :: "fl \<Rightarrow> fl \<Rightarrow> fl" where
  "fsub a b = fadd a (fneg b)"

fun fmul :: "fl \<Rightarrow> fl \<Rightarrow> fl" where
  "fmul (Fin a) (Fin b) = Fin (a * b)"
| "fmul NaN _ = NaN"
| "fmul _ NaN = NaN"
| "fmul (Fin a) i = inf_times i a"
| "fmul i (Fin b) = inf_times i b"
| "fmul PInf PInf = PInf"
| "fmul PInf NInf = NInf"
| "fmul NInf PInf = NInf"
| "fmul NInf NInf = PInf"

fun fdiv :: "fl \<Rightarrow> fl \<Rightarrow> fl" where
  "fdiv (Fin a) (Fin b) =
     (if b = 0 then (if a = 0 then NaN else if 0 < a then PInf else NInf)
      else Fin (a / b))"
| "fdiv NaN _ = NaN"
| "fdiv _ NaN = NaN"
| "fdiv (Fin a) _ = Fin 0"
| "fdiv i (Fin b) = (if 0 \<le> b then i else fneg i)"
| "fdiv _ _ = NaN"

fun fabs :: "fl \<Rightarrow> fl" where
  "fabs (Fin a) = Fin \<bar>a\<bar>"
| "fabs PInf = PInf"
| "fabs NInf = PInf"
| "fabs NaN = NaN"

text \<open>The comparison \<open><\<close>: every comparison with NaN is false.\<close>

fun flt :: "fl \<Rightarrow> fl \<Rightarrow> bool" where
  "flt (Fin a) (Fin b) = (a < b)"
| "flt NaN _ = False"
| "flt _ NaN = False"
| "flt PInf _ = False"
| "flt _ NInf = False"
| "flt NInf _ = True"
| "flt (Fin a) PInf = True"

fun fsin :: "fl \<Rightarrow> fl" where
  "fsin (Fin a) = Fin (sin a)"
| "fsin _ = NaN"

fun fcos :: "fl \<Rightarrow> fl" where
  "fcos (Fin a) = Fin (cos a)"
| "fcos _ = NaN"

text \<open>
  \<open>atan2 y x\<close> on the reals: the angle of the point \<open>(x, y)\<close>, in \<open>(-pi, pi]\<close>, and
  \<open>0\<close> at the origin.
\<close>

definition atan2 :: "real \<Rightarrow> real \<Rightarrow> real" where
  "atan2 y x =
     (if 0 < x then arctan (y / x)
      else if x < 0 then (if 0 \<le> y then arctan (y / x) + pi else arctan (y / x) - pi)
      else if 0 < y then pi / 2
      else if y < 0 then - (pi / 2)
      else 0)"

fun fatan2 :: "fl \<Rightarrow> fl \<Rightarrow> fl" where
  "fatan2 (Fin y) (Fin x) = Fin (atan2 y x)"
| "fatan2 NaN _ = NaN"
| "fatan2 _ NaN = NaN"
| "fatan2 (Fin y) PInf = Fin 0"
| "fatan2 (Fin y) NInf = (if 0 \<le> y then Fin pi else Fin (- pi))"
| "fatan2 PInf (Fin x) = Fin (pi / 2)"
| "fatan2 NInf (Fin x) = Fin (- (pi / 2))"
| "fatan2 PInf PInf = Fin (pi / 4)"
| "fatan2 NInf PInf = Fin (- (pi / 4))"
| "fatan2 PInf NInf = Fin (3 * pi / 4)"
| "fatan2 NInf NInf = Fin (- (3 * pi / 4))"

section \<open>Python values and errors\<close>

datatype error =
    KeyError string
  | ValueError
  | IndexError
  | TypeError
  | RuntimeError
  | UnboundLocalError

text \<open>A Python number: an \<open>int\<close> or a \<open>float\<close> (also numpy's \<open>float64\<close>).\<close>

datatype pynum = PyInt int | PyFloat real

fun num_val :: "pynum \<Rightarrow> real" where
  "num_val (PyInt n) = of_int n"
| "num_val (PyFloat x) = x"

text \<open>\<open>xs.index(x)\<close>: the first position of \<open>x\<close>, ValueError when there is none.\<close>

fun list_index :: "'a list \<Rightarrow> 'a \<Rightarrow> error + nat" where
  "list_index [] x = Inl ValueError"
| "list_index (y # ys) x =
     (if y = x then Inr 0
      else (case list_index ys x of Inl e \<Rightarrow> Inl e | Inr i \<Rightarrow> Inr (Suc i)))"

text \<open>\<open>xs[i]\<close> for a non-negative index: IndexError out of range.\<close>

definition getitem :: "'a list \<Rightarrow> nat \<Rightarrow> error + 'a" where
  "getitem xs i = (if i < length xs then Inr (xs ! i) else Inl IndexError)"

section \<open>LabelEncoder\<close>

record LabelEncoder =
  label_names :: "string list"
  target_label_names :: "string list"
  periodic_label_names :: "string list"
  target_weights :: "pynum list"
  tolerences :: "real list"
  llims :: "real list"
  ulims :: "real list"

text \<open>The limit of a label: \<open>lims[self.label_names.index(label_name)]\<close>.\<close>

definition label_lim :: "LabelEncoder \<Rightarrow> real list \<Rightarrow> string \<Rightarrow> error + real" where
  "label_lim enc lims label_name =
     (case list_index (label_names enc) label_name of
        Inl e \<Rightarrow> Inl e
      | Inr i \<Rightarrow> getitem lims i)"

text \<open>
  \<open>encode_norm\<close>: \<open>target\<close> is a tensor of one value per sample; the result has one
  column of the same length.
\<close>

definition encode_norm :: "LabelEncoder \<Rightarrow> fl list \<Rightarrow> string \<Rightarrow> error + fl list" where
  "encode_norm enc target label_name =
     (case label_lim enc (llims enc) label_name of
        Inl e \<Rightarrow> Inl e
      | Inr llim \<Rightarrow>
          (case label_lim enc (ulims enc) label_name of
             Inl e \<Rightarrow> Inl e
           | Inr ulim \<Rightarrow>
               Inr (map (\<lambda>t. fsub (fmul (fdiv (fsub t (Fin llim))
                                              (fsub (Fin ulim) (Fin llim))) (Fin 2)) (Fin 1))
                        target)))"

definition decode_norm :: "LabelEncoder \<Rightarrow> fl list \<Rightarrow> string \<Rightarrow> error + fl list" where
  "decode_norm enc prediction label_name =
     (case label_lim enc (llims enc) label_name of
        Inl e \<Rightarrow> Inl e
      | Inr llim \<Rightarrow>
          (case label_lim enc (ulims enc) label_name of
             Inl e \<Rightarrow> Inl e
           | Inr ulim \<Rightarrow>
               Inr (map (\<lambda>p. fadd (fmul (fdiv (fadd p (Fin 1)) (Fin 2))
                                        (fsub (Fin ulim) (Fin llim))) (Fin llim))
                        prediction)))"

text \<open>A tensor multiplied and divided by a scalar weight, elementwise.\<close>

definition tensor_scale :: "pynum \<Rightarrow> fl list \<Rightarrow> fl list" where
  "tensor_scale w t = map (\<lambda>x. fmul (Fin (num_val w)) x) t"

definition tensor_div :: "fl list \<Rightarrow> pynum \<Rightarrow> fl list" where
  "tensor_div t w = map (\<lambda>x. fdiv x (Fin (num_val w))) t"

text \<open>
  Two one-dimensional tensors combined elementwise.  Equal sizes combine pairwise, a
  tensor of size one is broadcast, any other pair of sizes is a RuntimeError.
\<close>

definition broadcast2 :: "('a \<Rightarrow> 'b \<Rightarrow> 'c) \<Rightarrow> 'a list \<Rightarrow> 'b list \<Rightarrow> error + 'c list" where
  "broadcast2 f a b =
     (if length a = length b then Inr (map2 f a b)
      else (case a of
              [x] \<Rightarrow> Inr (map (f x) b)
            | _ \<Rightarrow> (case b of
                       [y] \<Rightarrow> Inr (map (\<lambda>x. f x y) a)
                     | _ \<Rightarrow> Inl RuntimeError)))"

text \<open>\<open>encode_circnorm\<close> returns a Python list of two columns: the sines, the cosines.\<close>

definition encode_circnorm :: "fl list \<Rightarrow> fl list list" where
  "encode_circnorm target =
     (let ang = map (\<lambda>t. fdiv (fmul t (Fin pi)) (Fin 180)) target
      in [map fsin ang, map fcos ang])"

text \<open>
  \<open>decode_circnorm\<close>: \<open>torch.atan2(*vec_prediction)\<close> takes exactly two arguments, a
  list of another length is a TypeError.
\<close>

definition decode_circnorm :: "fl list list \<Rightarrow> error + fl list" where
  "decode_circnorm vec_prediction =
     (case vec_prediction of
        [s, c] \<Rightarrow>
          (case broadcast2 fatan2 s c of
             Inl e \<Rightarrow> Inl e
           | Inr pred_rot \<Rightarrow> Inr (map (\<lambda>r. fdiv (fmul r (Fin 180)) (Fin pi)) pred_rot))
      | _ \<Rightarrow> Inl TypeError)"

text \<open>
  \<open>out_dim\<close>: \<open>len(target_label_names)\<close> plus, for every entry \<open>p\<close> of
  \<open>periodic_label_names\<close>, \<open>target_label_names.count(p)\<close>.
\<close>

definition out_dim :: "LabelEncoder \<Rightarrow> nat" where
  "out_dim enc =
     length (target_label_names enc) +
     sum_list (map (\<lambda>p. count_list (target_label_names enc) p) (periodic_label_names enc))"

text \<open>
  A two-dimensional tensor of shape \<open>[shape0, length columns]\<close>, held by columns:
  \<open>outputs[:, i]\<close> is \<open>columns ! i\<close>, each of \<open>shape0\<close> entries.
\<close>

record tensor2 =
  shape0 :: nat
  columns :: "fl list list"

text \<open>
  \<open>torch.cat(encoded_pose, 1)\<close> of columns of shape \<open>[B, 1]\<close>: an empty list and
  columns of different sizes are RuntimeErrors.
\<close>

definition torch_cat :: "fl list list \<Rightarrow> error + tensor2" where
  "torch_cat cols =
     (case cols of
        [] \<Rightarrow> Inl RuntimeError
      | c # cs \<Rightarrow>
          (if list_all (\<lambda>d. length d = length c) cs
           then Inr \<lparr>shape0 = length c, columns = cols\<rparr>
           else Inl RuntimeError))"

text \<open>
  \<open>weight * xs\<close> for a Python list \<open>xs\<close>.  Python multiplies a list by an \<open>int\<close>
  by repeating it (no copy at all for a count below one) and refuses a \<open>float\<close>
  with a TypeError; no element is scaled.
\<close>

fun py_mul_list :: "pynum \<Rightarrow> 'a list \<Rightarrow> error + 'a list" where
  "py_mul_list (PyInt n) xs = Inr (concat (replicate (nat n) xs))"
| "py_mul_list (PyFloat x) xs = Inl TypeError"

text \<open>
  The loop of \<open>encode_label\<close> over \<open>zip(target_label_names, target_weights)\<close>;
  \<open>encoded_pose\<close> is the list of columns collected so far.
\<close>

fun encode_loop ::
  "LabelEncoder \<Rightarrow> (string \<rightharpoonup> fl list) \<Rightarrow> fl list list \<Rightarrow> (string \<times> pynum) list
    \<Rightarrow> error + fl list list" where
  "encode_loop enc labels_dict encoded_pose [] = Inr encoded_pose"
| "encode_loop enc labels_dict encoded_pose ((label_name, weight) # rest) =
     (case labels_dict label_name of
        None \<Rightarrow> Inl (KeyError label_name)
      | Some target \<Rightarrow>
          (if label_name \<notin> set (periodic_label_names enc) then
             (case encode_norm enc target label_name of
                Inl e \<Rightarrow> Inl e
              | Inr n \<Rightarrow>
                  encode_loop enc labels_dict (encoded_pose @ [tensor_scale weight n]) rest)
           else
             (case py_mul_list weight (encode_circnorm target) of
                Inl e \<Rightarrow> Inl e
              | Inr cs \<Rightarrow> encode_loop enc labels_dict (encoded_pose @ cs) rest)))"

definition encode_label :: "LabelEncoder \<Rightarrow> (string \<rightharpoonup> fl list) \<Rightarrow> error + tensor2" where
  "encode_label enc labels_dict =
     (case encode_loop enc labels_dict []
             (zip (target_label_names enc) (target_weights enc)) of
        Inl e \<Rightarrow> Inl e
      | Inr encoded_pose \<Rightarrow> torch_cat encoded_pose)"

text \<open>
  The loop of \<open>decode_label\<close>: \<open>ind\<close> is the next column to read, \<open>decoded_pose\<close>
  the dictionary filled so far.
\<close>

fun decode_loop ::
  "LabelEncoder \<Rightarrow> tensor2 \<Rightarrow> nat \<Rightarrow> (string \<rightharpoonup> fl list) \<Rightarrow> (string \<times> pynum) list
    \<Rightarrow> error + (string \<rightharpoonup> fl list)" where
  "decode_loop enc outputs ind decoded_pose [] = Inr decoded_pose"
| "decode_loop enc outputs ind decoded_pose ((label_name, weight) # rest) =
     (if label_name \<notin> set (periodic_label_names enc) then
        (case getitem (columns outputs) ind of
           Inl e \<Rightarrow> Inl e
         | Inr col \<Rightarrow>
             (case decode_norm enc (tensor_div col weight) label_name of
                Inl e \<Rightarrow> Inl e
              | Inr v \<Rightarrow>
                  decode_loop enc outputs (ind + 1) (decoded_pose(label_name \<mapsto> v)) rest))
      else
        (case getitem (columns outputs) ind of
           Inl e \<Rightarrow> Inl e
         | Inr col0 \<Rightarrow>
             (case getitem (columns outputs) (ind + 1) of
                Inl e \<Rightarrow> Inl e
              | Inr col1 \<Rightarrow>
                  (case decode_circnorm [tensor_div col0 weight, tensor_div col1 weight] of
                     Inl e \<Rightarrow> Inl e
                   | Inr v \<Rightarrow>
                       decode_loop enc outputs (ind + 2)
                         (decoded_pose(label_name \<mapsto> v)) rest))))"

definition decode_label :: "LabelEncoder \<Rightarrow> tensor2 \<Rightarrow> error + (string \<rightharpoonup> fl list)" where
  "decode_label enc outputs =
     decode_loop enc outputs 0
       (\<lambda>label. if label \<in> set (label_names enc)
                 then Some (replicate (shape0 outputs) (Fin 0)) else None)
       (zip (target_label_names enc) (target_weights enc))"

text \<open>The number of columns that the loop of \<open>decode_label\<close> reads for one label.\<close>

definition label_width :: "LabelEncoder \<Rightarrow> string \<Rightarrow> nat" where
  "label_width enc label_name = (if label_name \<in> set (periodic_label_names enc) then 2 else 1)"

section \<open>Error and accuracy metrics\<close>

text \<open>
  A pandas DataFrame: the declared column names, the number of rows, and the columns
  that hold data.  A declared column never assigned reads as NaN in every row.
\<close>

record dataframe =
  df_columns :: "string list"
  df_nrows :: nat
  df_data :: "string \<rightharpoonup> fl list"

definition df_new :: "string list \<Rightarrow> dataframe" where
  "df_new cols = \<lparr>df_columns = cols, df_nrows = 0, df_data = Map.empty\<rparr>"

text \<open>
  \<open>df[name] = arr\<close>: a frame without rows takes the length of \<open>arr\<close> (the columns it
  already holds are refilled with NaN); a frame with rows refuses an array of another
  length with a ValueError.
\<close>

definition df_setitem :: "dataframe \<Rightarrow> string \<Rightarrow> fl list \<Rightarrow> error + dataframe" where
  "df_setitem df name arr =
     (let cols = (if name \<in> set (df_columns df) then df_columns df
                  else df_columns df @ [name])
      in if df_nrows df = 0 then
           Inr \<lparr>df_columns = cols, df_nrows = length arr,
                df_data = (\<lambda>k. map_option (\<lambda>c. replicate (length arr) NaN) (df_data df k))
                            (name \<mapsto> arr)\<rparr>
         else if length arr = df_nrows df then
           Inr \<lparr>df_columns = cols, df_nrows = df_nrows df,
                df_data = (df_data df)(name \<mapsto> arr)\<rparr>
         else Inl ValueError)"

definition df_getitem :: "dataframe \<Rightarrow> string \<Rightarrow> error + fl list" where
  "df_getitem df name =
     (case df_data df name of
        Some c \<Rightarrow> Inr c
      | None \<Rightarrow>
          (if name \<in> set (df_columns df) then Inr (replicate (df_nrows df) NaN)
           else Inl (KeyError name)))"

text \<open>The absolute error of one periodic label, in degrees.\<close>

definition periodic_abs_err :: "fl list \<Rightarrow> fl list \<Rightarrow> error + fl list" where
  "periodic_abs_err label prediction =
     (let targ_rot = map (\<lambda>t. fdiv (fmul t (Fin pi)) (Fin 180)) label;
          pred_rot = map (\<lambda>t. fdiv (fmul t (Fin pi)) (Fin 180)) prediction
      in case broadcast2 fsub targ_rot pred_rot of
           Inl e \<Rightarrow> Inl e
         | Inr d \<Rightarrow>
             Inr (map (\<lambda>x. fdiv (fmul (fabs (fatan2 (fsin x) (fcos x))) (Fin 180)) (Fin pi)) d))"

text \<open>The error that \<open>periodic_abs_err\<close> computes for one pair of finite angles.\<close>

definition ang_err :: "real \<Rightarrow> real \<Rightarrow> real" where
  "ang_err l p = \<bar>atan2 (sin (l * pi / 180 - p * pi / 180)) (cos (l * pi / 180 - p * pi / 180))\<bar> * 180 / pi"

text \<open>The body of the loop of \<open>err_metric\<close>: the absolute error of one label.\<close>

definition label_abs_err ::
  "LabelEncoder \<Rightarrow> string \<Rightarrow> fl list \<Rightarrow> fl list \<Rightarrow> error + fl list" where
  "label_abs_err enc label_name l p =
     (if label_name \<notin> set (periodic_label_names enc)
      then (case broadcast2 fsub l p of
              Inl e \<Rightarrow> Inl e
            | Inr d \<Rightarrow> Inr (map fabs d))
      else periodic_abs_err l p)"

fun err_loop ::
  "LabelEncoder \<Rightarrow> (string \<rightharpoonup> fl list) \<Rightarrow> (string \<rightharpoonup> fl list) \<Rightarrow> dataframe \<Rightarrow> string list
    \<Rightarrow> error + dataframe" where
  "err_loop enc labels predictions err_df [] = Inr err_df"
| "err_loop enc labels predictions err_df (label_name # rest) =
     (case labels label_name of
        None \<Rightarrow> Inl (KeyError label_name)
      | Some l \<Rightarrow>
          (case predictions label_name of
             None \<Rightarrow> Inl (KeyError label_name)
           | Some p \<Rightarrow>
               (case label_abs_err enc label_name l p of
                  Inl e \<Rightarrow> Inl e
                | Inr abs_err \<Rightarrow>
                    (case df_setitem err_df label_name abs_err of
                       Inl e \<Rightarrow> Inl e
                     | Inr err_df' \<Rightarrow> err_loop enc labels predictions err_df' rest))))"

definition err_metric ::
  "LabelEncoder \<Rightarrow> (string \<rightharpoonup> fl list) \<Rightarrow> (string \<rightharpoonup> fl list) \<Rightarrow> error + dataframe" where
  "err_metric enc labels predictions =
     err_loop enc labels predictions (df_new (label_names enc)) (target_label_names enc)"

text \<open>\<open>astype(np.float32)\<close> of a boolean.\<close>

definition bool_float :: "bool \<Rightarrow> fl" where
  "bool_float b = (if b then Fin 1 else Fin 0)"

text \<open>
  The loop of \<open>acc_metric\<close> over \<open>zip(target_label_names, tolerences)\<close>; the state is
  \<open>overall_correct\<close> and \<open>acc_df\<close>.  The \<open>&\<close> of two boolean arrays of different
  lengths is a ValueError.
\<close>

fun acc_loop ::
  "dataframe \<Rightarrow> bool list \<Rightarrow> dataframe \<Rightarrow> (string \<times> real) list
    \<Rightarrow> error + (bool list \<times> dataframe)" where
  "acc_loop err_df overall_correct acc_df [] = Inr (overall_correct, acc_df)"
| "acc_loop err_df overall_correct acc_df ((label_name, tolerence) # rest) =
     (case df_getitem err_df label_name of
        Inl e \<Rightarrow> Inl e
      | Inr abs_err \<Rightarrow>
          (let correct = map (\<lambda>e. flt e (Fin tolerence)) abs_err
           in if length overall_correct \<noteq> length correct then Inl ValueError
              else (case df_setitem acc_df label_name (map bool_float correct) of
                      Inl e \<Rightarrow> Inl e
                    | Inr acc_df' \<Rightarrow>
                        acc_loop err_df (map2 (\<and>) overall_correct correct) acc_df' rest)))"

definition acc_metric :: "LabelEncoder \<Rightarrow> dataframe \<Rightarrow> error + dataframe" where
  "acc_metric enc err_df =
     (let batch_size = df_nrows err_df;
          acc_df = df_new (label_names enc @ [''overall_acc''])
      in case acc_loop err_df (replicate batch_size True) acc_df
                (zip (target_label_names enc) (tolerences enc)) of
           Inl e \<Rightarrow> Inl e
         | Inr (overall_correct, acc_df') \<Rightarrow>
             df_setitem acc_df' ''overall_acc'' (map bool_float overall_correct))"

text \<open>A frame whose columns all have \<open>B\<close> rows, or that is still empty.\<close>

definition df_rows :: "nat \<Rightarrow> dataframe \<Rightarrow> bool" where
  "df_rows B df =
     ((df_data df = Map.empty \<and> df_nrows df = 0) \<or>
      (df_nrows df = B \<and> (\<forall>c \<in> ran (df_data df). length c = B)))"

section \<open>Construction of a LabelEncoder\<close>

text \<open>
  \<open>task_params\<close> is a dictionary from keys to lists of names or of numbers.  The
  model is typed: a value of the wrong kind under a key is a TypeError at construction.
\<close>

datatype pyval = StrList "string list" | NumList "pynum list"

definition get_strs :: "(string \<rightharpoonup> pyval) \<Rightarrow> string \<Rightarrow> error + string list" where
  "get_strs task_params key =
     (case task_params key of
        None \<Rightarrow> Inl (KeyError key)
      | Some (StrList xs) \<Rightarrow> Inr xs
      | Some (NumList _) \<Rightarrow> Inl TypeError)"

definition get_nums :: "(string \<rightharpoonup> pyval) \<Rightarrow> string \<Rightarrow> error + pynum list" where
  "get_nums task_params key =
     (case task_params key of
        None \<Rightarrow> Inl (KeyError key)
      | Some (NumList xs) \<Rightarrow> Inr xs
      | Some (StrList _) \<Rightarrow> Inl TypeError)"

text \<open>\<open>task_params.get(key, default)\<close>.\<close>

definition get_strs_default ::
  "(string \<rightharpoonup> pyval) \<Rightarrow> string \<Rightarrow> string list \<Rightarrow> error + string list" where
  "get_strs_default task_params key d =
     (case task_params key of None \<Rightarrow> Inr d | Some _ \<Rightarrow> get_strs task_params key)"

definition get_nums_default ::
  "(string \<rightharpoonup> pyval) \<Rightarrow> string \<Rightarrow> pynum list \<Rightarrow> error + pynum list" where
  "get_nums_default task_params key d =
     (case task_params key of None \<Rightarrow> Inr d | Some _ \<Rightarrow> get_nums task_params key)"

text \<open>\<open>np.ones(n)\<close>: \<open>n\<close> floats equal to one.\<close>

definition np_ones :: "nat \<Rightarrow> pynum list" where
  "np_ones n = replicate n (PyFloat 1)"

definition LabelEncoder_init :: "(string \<rightharpoonup> pyval) \<Rightarrow> error + LabelEncoder" where
  "LabelEncoder_init task_params =
     (case get_strs task_params ''label_names'' of
        Inl e \<Rightarrow> Inl e
      | Inr lnames \<Rightarrow>
     (case get_strs task_params ''target_label_names'' of
        Inl e \<Rightarrow> Inl e
      | Inr tnames \<Rightarrow>
     (let num_targets = length tnames in
     (case get_strs_default task_params ''periodic_label_names'' [] of
        Inl e \<Rightarrow> Inl e
      | Inr pnames \<Rightarrow>
     (case get_nums_default task_params ''target_weights'' (np_ones num_targets) of
        Inl e \<Rightarrow> Inl e
      | Inr weights \<Rightarrow>
     (case get_nums_default task_params ''tolerences'' (np_ones num_targets) of
        Inl e \<Rightarrow> Inl e
      | Inr tols \<Rightarrow>
     (case get_nums task_params ''llims'' of
        Inl e \<Rightarrow> Inl e
      | Inr ll \<Rightarrow>
     (case get_nums task_params ''ulims'' of
        Inl e \<Rightarrow> Inl e
      | Inr ul \<Rightarrow>
          Inr \<lparr>label_names = lnames, target_label_names = tnames,
               periodic_label_names = pnames, target_weights = weights,
               tolerences = map num_val tols,
               llims = map num_val ll, ulims = map num_val ul\<rparr>))))))))"

section \<open>Control parameters\<close>

text \<open>
  The \<open>error\<close> entry is the string \<open>lambda y, r: transform_euler(r, y)\<close>, turned into a
  function handle by \<open>eval\<close>; \<open>transform_euler\<close> belongs to another library, so the
  handle is a constant here.
\<close>

datatype error_fn = SE3_transform_euler

text \<open>\<open>ei_clip\<close> is the pair of its lower and its upper bound.\<close>

record pid_params =
  kp :: "real list"
  ki :: "real list"
  ei_clip :: "real list \<times> real list"
  error :: error_fn

record control_params =
  ep_len :: int
  pid_params :: pid_params
  ref_pose :: "real list"

text \<open>
  For a task outside the four branches \<open>control_params\<close> is never bound and its first
  use is an UnboundLocalError.  \<open>save_dir\<close> only decides whether the parameters are also
  written to a file.
\<close>

definition setup_control_params :: "string \<Rightarrow> string option \<Rightarrow> error + control_params" where
  "setup_control_params task save_dir =
     (if task = ''surface_3d'' then
        Inr \<lparr>ep_len = 500,
             pid_params = \<lparr>kp = [1, 1, 0.5, 0.5, 0.5, 1],
                            ki = [0, 0, 0.3, 0.1, 0.1, 0],
                            ei_clip = ([0, 0, 0, -30, -30, 0], [0, 0, 5, 30, 30, 0]),
                            error = SE3_transform_euler\<rparr>,
             ref_pose = [0, -1, 3, 0, 0, 0]\<rparr>
      else if task = ''edge_2d'' then
        Inr \<lparr>ep_len = 50,
             pid_params = \<lparr>kp = [0.5, 1, 0, 0, 0, 0.5],
                            ki = [0.3, 0, 0, 0, 0, 0.1],
                            ei_clip = ([-5, 0, 0, 0, 0, -45], [5, 0, 0, 0, 0, 45]),
                            error = SE3_transform_euler\<rparr>,
             ref_pose = [0, 1, 0, 0, 0, 0]\<rparr>
      else if task = ''edge_3d'' then
        Inr \<lparr>ep_len = 400,
             pid_params = \<lparr>kp = [0.5, 1, 0.5, 0, 0, 0.5],
                            ki = [0.3, 0, 0.3, 0, 0, 0.1],
                            ei_clip = ([0, -5, 0, 0, 0, -45], [0, 5, 5, 0, 0, 45]),
                            error = SE3_transform_euler\<rparr>,
             ref_pose = [0, 1, 3, 0, 0, 0]\<rparr>
      else if task = ''edge_5d'' then
        Inr \<lparr>ep_len = 250,
             pid_params = \<lparr>kp = [1, 0.5, 0.5, 0.5, 0.5, 0.5],
                            ki = [0, 0.3, 0.3, 0.1, 0.1, 0.1],
                            ei_clip = ([0, -5, 0, -30, -30, -45], [0, 5, 5, 30, 30, 45]),
                            error = SE3_transform_euler\<rparr>,
             ref_pose = [1, 0, 3, 0, 0, 0]\<rparr>
      else Inl UnboundLocalError)"

text \<open>The invariant of ControlParams.\<close>

definition control_params_ok :: "control_params \<Rightarrow> bool" where
  "control_params_ok cp =
     (0 < ep_len cp \<and>
      length (kp (pid_params cp)) = 6 \<and>
      length (ki (pid_params cp)) = 6 \<and>
      length (fst (ei_clip (pid_params cp))) = 6 \<and>
      length (snd (ei_clip (pid_params cp))) = 6 \<and>
      list_all2 (\<le>) (fst (ei_clip (pid_params cp))) (snd (ei_clip (pid_params cp))))"

section \<open>PIDController\<close>

text \<open>
  Modelled from the spec: the class PIDController is not among the source files.  The
  spec gives its step as
  \<^verbatim>\<open>
  proportional = kp * error_vector                      (elementwise)
  integral_state += ki * error_vector * dt
  integral_state = clip(integral_state, ei_clip.lower, ei_clip.upper)
  control_output = proportional + integral_state
  \<close>
  and \<open>reset\<close> as zeroing the integral state.  Vectors are lists of reals of one length.
\<close>

text \<open>
  Modelled from the spec: \<open>clip\<close>, which the spec names without defining it, read
  as numpy's: the value raised to the lower bound, then lowered to the upper bound.
\<close>

definition clip :: "real \<Rightarrow> real \<Rightarrow> real \<Rightarrow> real" where
  "clip x lower upper = min (max x lower) upper"

text \<open>Modelled from the spec: \<open>clip\<close> on vectors, elementwise.\<close>

definition vclip :: "real list \<Rightarrow> real list \<Rightarrow> real list \<Rightarrow> real list" where
  "vclip xs lower upper = map (\<lambda>(x, l, u). clip x l u) (zip xs (zip lower upper))"

text \<open>Modelled from the spec: \<open>reset()\<close>, the integral state zeroed on every axis.\<close>

definition PID_reset :: "pid_params \<Rightarrow> real list" where
  "PID_reset p = replicate (length (ki p)) 0"

text \<open>
  Modelled from the spec: \<open>step(error_vector, dt)\<close>, the four lines above; it returns
  the new integral state and the control output.
\<close>

definition PID_step :: "pid_params \<Rightarrow> real list \<Rightarrow> real list \<Rightarrow> real \<Rightarrow> real list \<times> real list" where
  "PID_step p integral_state error_vector dt =
     (let proportional = map2 (*) (kp p) error_vector;
          integral1 = map2 (+) integral_state (map (\<lambda>x. x * dt) (map2 (*) (ki p) error_vector));
          integral2 = vclip integral1 (fst (ei_clip p)) (snd (ei_clip p));
          control_output = map2 (+) proportional integral2
      in (integral2, control_output))"

text \<open>
  Modelled from the spec: a run of steps over a sequence of error vectors, from a given
  integral state; it returns the final integral state and the output of every step.
\<close>

fun PID_run :: "pid_params \<Rightarrow> real list \<Rightarrow> real list list \<Rightarrow> real \<Rightarrow> real list \<times> real list list" where
  "PID_run p integral_state [] dt = (integral_state, [])"
| "PID_run p integral_state (e # es) dt =
     (let (i1, out) = PID_step p integral_state e dt;
          (i2, outs) = PID_run p i1 es dt
      in (i2, out # outs))"

section \<open>Rounding to float32\<close>










section \<open>The sign of zero\<close>

text \<open>
  A float that is either the negative zero or a value of \<open>fl\<close> (whose \<open>Fin 0\<close> is the
  positive zero).
\<close>

datatype sfl = NegZero | Val fl

text \<open>
  \<open>torch.atan2\<close> with the sign of zero, as IEEE 754 fixes it: a negative zero \<open>y\<close>
  gives \<open>- pi\<close> for a negative \<open>x\<close> (also the negative zero and \<open>- inf\<close>) and the
  negative zero otherwise; a negative zero \<open>x\<close> counts as negative.
\<close>

fun atan2_ieee :: "sfl \<Rightarrow> sfl \<Rightarrow> sfl" where
  "atan2_ieee NegZero NegZero = Val (Fin (- pi))"
| "atan2_ieee NegZero (Val (Fin x)) = (if x < 0 then Val (Fin (- pi)) else NegZero)"
| "atan2_ieee NegZero (Val PInf) = NegZero"
| "atan2_ieee NegZero (Val NInf) = Val (Fin (- pi))"
| "atan2_ieee NegZero (Val NaN) = Val NaN"
| "atan2_ieee (Val (Fin y)) NegZero =
     (if 0 < y then Val (Fin (pi / 2))
      else if y < 0 then Val (Fin (- (pi / 2)))
      else Val (Fin pi))"
| "atan2_ieee (Val PInf) NegZero = Val (Fin (pi / 2))"
| "atan2_ieee (Val NInf) NegZero = Val (Fin (- (pi / 2)))"
| "atan2_ieee (Val NaN) NegZero = Val NaN"
| "atan2_ieee (Val (Fin y)) (Val PInf) = (if y < 0 then NegZero else Val (Fin 0))"
| "atan2_ieee (Val y) (Val x) = Val (fatan2 y x)"

text \<open>\<open>pred_rot * 180 / np.pi\<close>: both factors are positive, so a zero keeps its sign.\<close>

fun to_degrees :: "sfl \<Rightarrow> sfl" where
  "to_degrees NegZero = NegZero"
| "to_degrees (Val r) = Val (fdiv (fmul r (Fin 180)) (Fin pi))"

text \<open>\<open>decode_circnorm\<close> on floats that carry the sign of zero.\<close>

definition decode_circnorm_ieee :: "sfl list list \<Rightarrow> error + sfl list" where
  "decode_circnorm_ieee vec_prediction =
     (case vec_prediction of
        [s, c] \<Rightarrow>
          (case broadcast2 atan2_ieee s c of
             Inl e \<Rightarrow> Inl e
           | Inr pred_rot \<Rightarrow> Inr (map to_degrees pred_rot))
      | _ \<Rightarrow> Inl TypeError)"

text \<open>A finite float: the negative zero (\<open>None\<close>) or a real, whose zero is positive.\<close>

fun sfl_of :: "real option \<Rightarrow> sfl" where
  "sfl_of None = NegZero"
| "sfl_of (Some a) = Val (Fin a)"

section \<open>Example configurations\<close>

definition enc_x :: LabelEncoder where
  "enc_x = \<lparr>label_names = [''x''], target_label_names = [''x''],
            periodic_label_names = [], target_weights = [PyFloat 2],
            tolerences = [1], llims = [-5], ulims = [5]\<rparr>"

definition enc_yaw :: LabelEncoder where
  "enc_yaw = \<lparr>label_names = [''yaw''], target_label_names = [''yaw''],
              periodic_label_names = [''yaw''], target_weights = [PyInt 1],
              tolerences = [1], llims = [-180], ulims = [180]\<rparr>"

definition pid_example :: pid_params where
  "pid_example = \<lparr>kp = [0.5], ki = [0.3], ei_clip = ([-5], [5]), error = SE3_transform_euler\<rparr>"

definition enc_xy :: LabelEncoder where
  "enc_xy = \<lparr>label_names = [''x'', ''y'', ''z''], target_label_names = [''x'', ''y''],
             periodic_label_names = [], target_weights = [PyFloat 1, PyFloat 1],
             tolerences = [1, 2], llims = [-5, -5, -5], ulims = [5, 5, 5]\<rparr>"

definition err_xy :: dataframe where
  "err_xy = \<lparr>df_columns = [''x'', ''y'', ''z''], df_nrows = 3,
             df_data = [''x'' \<mapsto> [Fin 0.5, Fin 1, Fin 0.5], ''y'' \<mapsto> [Fin 1, Fin 1, Fin 2]]\<rparr>"

definition tp_tolerances :: "string \<rightharpoonup> pyval" where
  "tp_tolerances =
     [''label_names'' \<mapsto> StrList [''x'', ''y'', ''z''],
      ''target_label_names'' \<mapsto> StrList [''x'', ''y''],
      ''tolerances'' \<mapsto> NumList [PyFloat 0.1, PyFloat 0.1],
      ''llims'' \<mapsto> NumList [PyInt (-5), PyInt (-5), PyInt (-5)],
      ''ulims'' \<mapsto> NumList [PyInt 5, PyInt 5, PyInt 5]]"

definition enc_flat :: LabelEncoder where
  "enc_flat = \<lparr>label_names = [''x''], target_label_names = [''x''],
               periodic_label_names = [], target_weights = [PyFloat 1],
               tolerences = [1], llims = [5], ulims = [5]\<rparr>"

definition tp_flat :: "string \<rightharpoonup> pyval" where
  "tp_flat =
     [''label_names'' \<mapsto> StrList [''x''],
      ''target_label_names'' \<mapsto> StrList [''x''],
      ''llims'' \<mapsto> NumList [PyInt 5],
      ''ulims'' \<mapsto> NumList [PyInt 5]]"

definition wide_outputs :: tensor2 where
  "wide_outputs = \<lparr>shape0 = 1, columns = [[Fin 1], [Fin 7]]\<rparr>"

definition enc_pose :: LabelEncoder where
  "enc_pose = \<lparr>label_names = [''x'', ''yaw''], target_label_names = [''x'', ''yaw''],
               periodic_label_names = [''yaw''], target_weights = [PyInt 1, PyInt 1],
               tolerences = [1, 1], llims = [-5, -180], ulims = [5, 180]\<rparr>"

definition narrow_outputs :: tensor2 where
  "narrow_outputs = \<lparr>shape0 = 1, columns = [[Fin 0], [Fin 0]]\<rparr>"

definition wide_outputs4 :: tensor2 where
  "wide_outputs4 = \<lparr>shape0 = 1, columns = [[Fin 0], [Fin 0], [Fin 1], [Fin 7]]\<rparr>"

definition enc_yaw2 :: LabelEncoder where
  "enc_yaw2 = \<lparr>label_names = [''yaw''], target_label_names = [''yaw''],
               periodic_label_names = [''yaw''], target_weights = [PyInt 2],
               tolerences = [1], llims = [-180], ulims = [180]\<rparr>"


section \<open>Round trip of the linear encoding\<close>








section \<open>The circular encoding\<close>

lemma atan2_bounds: "- pi < atan2 y x \<and> atan2 y x \<le> pi"
proof -
  have b: "- (pi / 2) < arctan (y / x)" "arctan (y / x) < pi / 2"
    using arctan_bounded [of "y / x"] by simp_all
  have neg: "x < 0 \<Longrightarrow> 0 \<le> y \<Longrightarrow> arctan (y / x) \<le> 0"
    by (simp add: arctan_le_zero_iff divide_nonneg_neg)
  have pos: "x < 0 \<Longrightarrow> y < 0 \<Longrightarrow> 0 < arctan (y / x)"
    by (simp add: zero_less_arctan_iff divide_neg_neg)
  show ?thesis
    using b neg pos pi_gt_zero by (auto simp: atan2_def)
qed

lemma atan2_sin_cos:
  assumes "- pi < a" and "a \<le> pi"
  shows "atan2 (sin a) (cos a) = a"
proof -
  consider "- (pi / 2) < a \<and> a < pi / 2" | "a = pi / 2" | "a = - (pi / 2)"
    | "pi / 2 < a" | "a < - (pi / 2)"
    by linarith
  then show ?thesis
  proof cases
    case 1
    then have "0 < cos a" by (simp add: cos_gt_zero_pi)
    moreover have "arctan (sin a / cos a) = a"
      using 1 arctan_tan [of a] by (simp add: tan_def)
    ultimately show ?thesis by (simp add: atan2_def)
  next
    case 2
    have "atan2 (sin (pi / 2)) (cos (pi / 2)) = pi / 2" by (simp add: atan2_def)
    then show ?thesis unfolding 2 .
  next
    case 3
    have "atan2 (sin (- (pi / 2))) (cos (- (pi / 2))) = - (pi / 2)" by (simp add: atan2_def)
    then show ?thesis unfolding 3 .
  next
    case 4
    have "0 < cos (a - pi)" using 4 assms by (intro cos_gt_zero_pi) linarith+
    then have c: "cos a < 0" by simp
    have s: "0 \<le> sin a" using 4 assms pi_gt_zero by (intro sin_ge_zero) linarith+
    have "arctan (tan (a - pi)) = a - pi"
      using 4 assms by (intro arctan_tan) linarith+
    moreover have "tan (a - pi) = tan a"
      using tan_periodic_pi [of "a - pi"] by simp
    ultimately have "arctan (sin a / cos a) = a - pi" by (simp add: tan_def)
    then show ?thesis using c s by (simp add: atan2_def)
  next
    case 5
    have "0 < cos (a + pi)" using 5 assms by (intro cos_gt_zero_pi) linarith+
    then have c: "cos a < 0" by simp
    have "0 < sin (a + pi)" using 5 assms by (intro sin_gt_zero) linarith+
    then have s: "sin a < 0" by simp
    have "arctan (tan (a + pi)) = a + pi"
      using 5 assms by (intro arctan_tan) linarith+
    then have "arctan (sin a / cos a) = a + pi" by (simp add: tan_def)
    then show ?thesis using c s by (simp add: atan2_def)
  qed
qed

lemma reduce_angle: "\<exists>k::int. - pi < t + 2 * pi * of_int k \<and> t + 2 * pi * of_int k \<le> pi"
proof -
  define c :: int where "c = \<lceil>(t - pi) / (2 * pi)\<rceil>"
  have "(t - pi) / (2 * pi) \<le> of_int c" and "of_int c - 1 < (t - pi) / (2 * pi)"
    using ceiling_correct [of "(t - pi) / (2 * pi)"] by (simp_all add: c_def)
  then have "t - pi \<le> of_int c * (2 * pi)" and "(of_int c - 1) * (2 * pi) < t - pi"
    using pi_gt_zero by (simp_all add: pos_divide_le_eq pos_less_divide_eq)
  then have "- pi < t + 2 * pi * of_int (- c) \<and> t + 2 * pi * of_int (- c) \<le> pi"
    by (simp add: algebra_simps)
  then show ?thesis by blast
qed

lemma atan2_sin_cos_mod:
  "\<exists>k::int. atan2 (sin t) (cos t) = t + 2 * pi * of_int k \<and>
             - pi < t + 2 * pi * of_int k \<and> t + 2 * pi * of_int k \<le> pi"
proof -
  obtain k :: int where k: "- pi < t + 2 * pi * of_int k" "t + 2 * pi * of_int k \<le> pi"
    using reduce_angle by blast
  have "sin (t + 2 * pi * of_int k) = sin t" "cos (t + 2 * pi * of_int k) = cos t"
    using sin_cos_eq_iff [of "t + 2 * pi * of_int k" t] by auto
  then have "atan2 (sin t) (cos t) = t + 2 * pi * of_int k"
    using atan2_sin_cos [OF k] by simp
  then show ?thesis using k by blast
qed

lemma map2_same: "map2 f (map g xs) (map h xs) = map (\<lambda>x. f (g x) (h x)) xs"
  by (induction xs) simp_all

lemma atan2_degrees_bounds: "- 180 < atan2 s c * 180 / pi \<and> atan2 s c * 180 / pi \<le> 180"
proof -
  have "- pi < atan2 s c" "atan2 s c \<le> pi" using atan2_bounds [of s c] by simp_all
  then have "- pi * 180 < atan2 s c * 180" "atan2 s c * 180 \<le> pi * 180" by simp_all
  then show ?thesis using pi_gt_zero by (simp add: pos_less_divide_eq pos_divide_le_eq)
qed

lemma atan2_degrees_mod:
  "\<exists>k::int. atan2 (sin (t * pi / 180)) (cos (t * pi / 180)) * 180 / pi = t + 360 * of_int k"
proof -
  obtain k :: int where
    "atan2 (sin (t * pi / 180)) (cos (t * pi / 180)) = t * pi / 180 + 2 * pi * of_int k"
    using atan2_sin_cos_mod [of "t * pi / 180"] by blast
  then have "atan2 (sin (t * pi / 180)) (cos (t * pi / 180)) * 180 / pi = t + 360 * of_int k"
    using pi_gt_zero by (simp add: field_simps)
  then show ?thesis ..
qed

text \<open>
  C2, as stated, fails: for the pair of a negative zero sine and the cosine \<open>-1\<close>,
  \<open>atan2\<close> is \<open>- pi\<close> and the decoded angle is \<open>-180\<close>, outside \<open>(-180, 180]\<close>.
\<close>

theorem decode_circnorm_negative_zero_counterexample:
  "decode_circnorm_ieee [[NegZero], [Val (Fin (- 1))]] = Inr [Val (Fin (- 180))] \<and>
   \<not> ((- 180 :: real) < - 180)"
  by (simp add: decode_circnorm_ieee_def broadcast2_def)

lemma decode_circnorm_ieee_pairs:
  "decode_circnorm_ieee [map (\<lambda>p. sfl_of (fst p)) scs, map (\<lambda>p. sfl_of (snd p)) scs] =
     Inr (map (\<lambda>p. to_degrees (atan2_ieee (sfl_of (fst p)) (sfl_of (snd p)))) scs)"
  by (simp add: decode_circnorm_ieee_def broadcast2_def map2_same o_def)

lemma to_degrees_range:
  "to_degrees (atan2_ieee (sfl_of s) (sfl_of c)) = NegZero \<or>
   (\<exists>d. to_degrees (atan2_ieee (sfl_of s) (sfl_of c)) = Val (Fin d) \<and> - 180 \<le> d \<and> d \<le> 180)"
proof (cases s)
  case None
  then show ?thesis by (cases c) simp_all
next
  case (Some y)
  show ?thesis
  proof (cases c)
    case None
    then show ?thesis using Some by simp
  next
    case (Some x)
    then show ?thesis using \<open>s = Some y\<close> atan2_degrees_bounds [of y x] by simp
  qed
qed

text \<open>
  C2, amended.  Over exact arithmetic, for every batch of angles in degrees, decoding
  the circular encoding gives, for each angle, an angle congruent to it modulo 360 that
  lies in \<open>[-180, 180]\<close>.  And for every batch of finite pairs \<open>(sin, cos)\<close>, of any
  magnitude, at the origin and with zeros of either sign, the decoded angle is a
  negative zero or lies in the closed range \<open>[-180, 180]\<close>.
\<close>

theorem circnorm_roundtrip_closed:
  "(\<exists>ds. decode_circnorm_ieee (map (map Val) (encode_circnorm (map Fin thetas)))
            = Inr (map (\<lambda>d. Val (Fin d)) ds) \<and>
         list_all2 (\<lambda>t d. (\<exists>k::int. d = t + 360 * of_int k) \<and> - 180 \<le> d \<and> d \<le> 180)
           thetas ds) \<and>
   (\<exists>rs. decode_circnorm_ieee [map (\<lambda>p. sfl_of (fst p)) scs, map (\<lambda>p. sfl_of (snd p)) scs]
            = Inr rs \<and>
         length rs = length scs \<and>
         list_all (\<lambda>r. r = NegZero \<or> (\<exists>d. r = Val (Fin d) \<and> - 180 \<le> d \<and> d \<le> 180)) rs)"
proof (intro conjI)
  let ?f = "\<lambda>t. atan2 (sin (t * pi / 180)) (cos (t * pi / 180)) * 180 / pi"
  have a: "decode_circnorm_ieee (map (map Val) (encode_circnorm (map Fin thetas)))
      = Inr (map (\<lambda>d. Val (Fin d)) (map ?f thetas))"
    by (simp add: encode_circnorm_def decode_circnorm_ieee_def broadcast2_def map2_same o_def)
  have b: "list_all2 (\<lambda>t d. (\<exists>k::int. d = t + 360 * of_int k) \<and> - 180 \<le> d \<and> d \<le> 180)
      thetas (map ?f thetas)"
    unfolding list_all2_map2
  proof (rule list_all2_refl)
    fix t :: real
    show "(\<exists>k::int. ?f t = t + 360 * of_int k) \<and> - 180 \<le> ?f t \<and> ?f t \<le> 180"
      using atan2_degrees_mod [of t]
        atan2_degrees_bounds [of "sin (t * pi / 180)" "cos (t * pi / 180)"]
      by auto
  qed
  show "\<exists>ds. decode_circnorm_ieee (map (map Val) (encode_circnorm (map Fin thetas)))
            = Inr (map (\<lambda>d. Val (Fin d)) ds) \<and>
         list_all2 (\<lambda>t d. (\<exists>k::int. d = t + 360 * of_int k) \<and> - 180 \<le> d \<and> d \<le> 180)
           thetas ds"
    by (rule exI [of _ "map ?f thetas"]) (use a b in blast)
next
  let ?g = "\<lambda>p. to_degrees (atan2_ieee (sfl_of (fst p)) (sfl_of (snd p)))"
  have b: "list_all (\<lambda>r. r = NegZero \<or> (\<exists>d. r = Val (Fin d) \<and> - 180 \<le> d \<and> d \<le> 180))
      (map ?g scs)"
    unfolding list_all_iff using to_degrees_range by auto
  have c: "length (map ?g scs) = length scs" by simp
  show "\<exists>rs. decode_circnorm_ieee [map (\<lambda>p. sfl_of (fst p)) scs, map (\<lambda>p. sfl_of (snd p)) scs]
            = Inr rs \<and>
         length rs = length scs \<and>
         list_all (\<lambda>r. r = NegZero \<or> (\<exists>d. r = Val (Fin d) \<and> - 180 \<le> d \<and> d \<le> 180)) rs"
    by (rule exI [of _ "map ?g scs"]) (use decode_circnorm_ieee_pairs b c in blast)
qed

section \<open>The error of a periodic label\<close>

lemma map_zip_same: "map h (zip (map g xs) (map k xs)) = map (\<lambda>x. h (g x, k x)) xs"
  by (induction xs) simp_all

lemma periodic_abs_err_fin:
  "periodic_abs_err (map (\<lambda>q. Fin (fst q)) lps) (map (\<lambda>q. Fin (snd q)) lps) =
     Inr (map (\<lambda>q. Fin (\<bar>atan2 (sin (fst q * pi / 180 - snd q * pi / 180))
                                  (cos (fst q * pi / 180 - snd q * pi / 180))\<bar> * 180 / pi)) lps)"
  by (simp add: periodic_abs_err_def broadcast2_def map_zip_same o_def fsub_def)

lemma min_dist:
  fixes l p :: real
  defines "e \<equiv> \<bar>atan2 (sin (l * pi / 180 - p * pi / 180)) (cos (l * pi / 180 - p * pi / 180))\<bar> * 180 / pi"
  shows "0 \<le> e" and "e \<le> 180" and "\<exists>k::int. e = \<bar>l - p + 360 * of_int k\<bar>"
    and "\<forall>k::int. e \<le> \<bar>l - p + 360 * of_int k\<bar>"
proof -
  define a where "a = atan2 (sin ((l - p) * pi / 180)) (cos ((l - p) * pi / 180)) * 180 / pi"
  have eq: "l * pi / 180 - p * pi / 180 = (l - p) * pi / 180" by (simp add: algebra_simps)
  have e: "e = \<bar>a\<bar>" using pi_gt_zero by (simp add: e_def a_def eq abs_mult abs_divide)
  have b: "- 180 < a" "a \<le> 180" using atan2_degrees_bounds [of _ _] by (simp_all add: a_def)
  obtain k0 :: int where k0: "a = (l - p) + 360 * of_int k0"
    using atan2_degrees_mod [of "l - p"] by (auto simp: a_def)
  show "0 \<le> e" using e by simp
  show "e \<le> 180" using e b by simp
  show "\<exists>k::int. e = \<bar>l - p + 360 * of_int k\<bar>" using e k0 by blast
  show "\<forall>k::int. e \<le> \<bar>l - p + 360 * of_int k\<bar>"
  proof
    fix k :: int
    define j where "j = k - k0"
    have s: "l - p + 360 * of_int k = a + 360 * of_int j" by (simp add: k0 j_def algebra_simps)
    consider "j = 0" | "1 \<le> j" | "j \<le> -1" by linarith
    then have "\<bar>a\<bar> \<le> \<bar>a + 360 * of_int j\<bar>"
    proof cases
      case 1 then show ?thesis by simp
    next
      case 2
      then have "(1::real) \<le> of_int j" by linarith
      then show ?thesis using b by linarith
    next
      case 3
      then have "of_int j \<le> (-1::real)" by linarith
      then show ?thesis using b by linarith
    qed
    then show "e \<le> \<bar>l - p + 360 * of_int k\<bar>" using e s by simp
  qed
qed

lemma df_setitem_result:
  "df_setitem df name arr = Inr df' \<Longrightarrow>
     df_data df' name = Some arr \<and> df_nrows df' = length arr"
  by (auto simp: df_setitem_def Let_def split: if_splits)

lemma df_setitem_other:
  "df_setitem df name arr = Inr df' \<Longrightarrow> df_nrows df \<noteq> 0 \<Longrightarrow> k \<noteq> name \<Longrightarrow>
     df_data df' k = df_data df k"
  by (auto simp: df_setitem_def Let_def split: if_splits)

lemma label_abs_err_periodic:
  "lab \<in> set (periodic_label_names enc) \<Longrightarrow>
   label_abs_err enc lab (map (\<lambda>q. Fin (fst q)) lps) (map (\<lambda>q. Fin (snd q)) lps) =
     Inr (map (\<lambda>q. Fin (ang_err (fst q) (snd q))) lps)"
  by (simp add: label_abs_err_def periodic_abs_err_fin ang_err_def)

lemma err_loop_ConsE:
  assumes "err_loop enc labels predictions df (x # rest) = Inr df'"
  obtains l p abs_err df1 where "labels x = Some l" and "predictions x = Some p"
    and "label_abs_err enc x l p = Inr abs_err"
    and "df_setitem df x abs_err = Inr df1"
    and "err_loop enc labels predictions df1 rest = Inr df'"
  using assms by (auto split: option.splits sum.splits)

lemma err_loop_keeps:
  assumes l: "labels lab = Some (map (\<lambda>q. Fin (fst q)) lps)"
    and p: "predictions lab = Some (map (\<lambda>q. Fin (snd q)) lps)"
    and per: "lab \<in> set (periodic_label_names enc)"
    and ne: "lps \<noteq> []"
  shows "err_loop enc labels predictions df rest = Inr df' \<Longrightarrow>
     df_data df lab = Some (map (\<lambda>q. Fin (ang_err (fst q) (snd q))) lps) \<Longrightarrow>
     df_nrows df = length lps \<Longrightarrow>
     df_data df' lab = Some (map (\<lambda>q. Fin (ang_err (fst q) (snd q))) lps)"
proof (induction rest arbitrary: df)
  case Nil
  then show ?case by simp
next
  case (Cons x rest)
  from Cons.prems(1) obtain l0 p0 abs_err df1 where
      l0: "labels x = Some l0" and p0: "predictions x = Some p0"
      and e: "label_abs_err enc x l0 p0 = Inr abs_err"
      and s: "df_setitem df x abs_err = Inr df1"
      and r: "err_loop enc labels predictions df1 rest = Inr df'"
    by (rule err_loop_ConsE)
  have a: "x = lab \<Longrightarrow> abs_err = map (\<lambda>q. Fin (ang_err (fst q) (snd q))) lps"
    using l p l0 p0 e label_abs_err_periodic [OF per, of lps] by simp
  have n0: "df_nrows df \<noteq> 0" using Cons.prems(3) ne by simp
  have "df_nrows df1 = length lps"
    using s n0 Cons.prems(3) by (auto simp: df_setitem_def Let_def split: if_splits)
  moreover have "df_data df1 lab = Some (map (\<lambda>q. Fin (ang_err (fst q) (snd q))) lps)"
  proof (cases "x = lab")
    case True
    then show ?thesis using df_setitem_result [OF s] a by simp
  next
    case False
    then show ?thesis using df_setitem_other [OF s n0, of lab] Cons.prems(2) by simp
  qed
  ultimately show ?case using Cons.IH [OF r] by simp
qed

lemma err_loop_sets:
  assumes l: "labels lab = Some (map (\<lambda>q. Fin (fst q)) lps)"
    and p: "predictions lab = Some (map (\<lambda>q. Fin (snd q)) lps)"
    and per: "lab \<in> set (periodic_label_names enc)"
    and ne: "lps \<noteq> []"
  shows "err_loop enc labels predictions df rest = Inr df' \<Longrightarrow> lab \<in> set rest \<Longrightarrow>
     df_data df' lab = Some (map (\<lambda>q. Fin (ang_err (fst q) (snd q))) lps)"
proof (induction rest arbitrary: df)
  case Nil
  then show ?case by simp
next
  case (Cons x rest)
  from Cons.prems(1) obtain l0 p0 abs_err df1 where
      l0: "labels x = Some l0" and p0: "predictions x = Some p0"
      and e: "label_abs_err enc x l0 p0 = Inr abs_err"
      and s: "df_setitem df x abs_err = Inr df1"
      and r: "err_loop enc labels predictions df1 rest = Inr df'"
    by (rule err_loop_ConsE)
  have a: "x = lab \<Longrightarrow> abs_err = map (\<lambda>q. Fin (ang_err (fst q) (snd q))) lps"
    using l p l0 p0 e label_abs_err_periodic [OF per, of lps] by simp
  show ?case
  proof (cases "x = lab")
    case True
    have "df_data df1 lab = Some (map (\<lambda>q. Fin (ang_err (fst q) (snd q))) lps)"
      and "df_nrows df1 = length lps"
      using df_setitem_result [OF s] a True by simp_all
    then show ?thesis using err_loop_keeps [OF l p per ne r] by simp
  next
    case False
    then have "lab \<in> set rest" using Cons.prems(2) by simp
    then show ?thesis using Cons.IH [OF r] by simp
  qed
qed

text \<open>
  C3.  When \<open>err_metric\<close> returns, the column of a periodic target label holds, for
  every pair (label, prediction) of a non-empty batch, the absolute value of
  \<open>atan2 (sin d) (cos d)\<close> in degrees, \<open>d\<close> being the difference of the two angles in
  radians.  That value lies in \<open>[0, 180]\<close>, and it is the minimal angular distance on
  the circle: it equals \<open>\<bar>label - prediction + 360 k\<bar>\<close> for some integer \<open>k\<close> and
  is at most that for every \<open>k\<close>.  The witness is the pair 179, -179, whose error is 2.
\<close>

theorem err_metric_periodic:
  assumes "err_metric enc labels predictions = Inr err_df"
    and "lab \<in> set (target_label_names enc)"
    and "lab \<in> set (periodic_label_names enc)"
    and "labels lab = Some (map (\<lambda>q. Fin (fst q)) lps)"
    and "predictions lab = Some (map (\<lambda>q. Fin (snd q)) lps)"
    and "lps \<noteq> []"
  shows "\<exists>es. df_data err_df lab = Some (map Fin es) \<and>
           list_all2 (\<lambda>q e.
               e = \<bar>atan2 (sin (fst q * pi / 180 - snd q * pi / 180))
                           (cos (fst q * pi / 180 - snd q * pi / 180))\<bar> * 180 / pi \<and>
               0 \<le> e \<and> e \<le> 180 \<and>
               (\<exists>k::int. e = \<bar>fst q - snd q + 360 * of_int k\<bar>) \<and>
               (\<forall>k::int. e \<le> \<bar>fst q - snd q + 360 * of_int k\<bar>)) lps es"
proof -
  let ?es = "map (\<lambda>q. ang_err (fst q) (snd q)) lps"
  have "err_loop enc labels predictions (df_new (label_names enc)) (target_label_names enc)
      = Inr err_df"
    using assms(1) by (simp add: err_metric_def)
  then have "df_data err_df lab = Some (map (\<lambda>q. Fin (ang_err (fst q) (snd q))) lps)"
    using assms(2)
    by (rule err_loop_sets [where labels = labels and predictions = predictions
          and lab = lab and lps = lps and enc = enc,
          OF assms(4) assms(5) assms(3) assms(6)])
  then have a: "df_data err_df lab = Some (map Fin ?es)" by (simp add: o_def)
  have b: "list_all2 (\<lambda>q e.
               e = \<bar>atan2 (sin (fst q * pi / 180 - snd q * pi / 180))
                           (cos (fst q * pi / 180 - snd q * pi / 180))\<bar> * 180 / pi \<and>
               0 \<le> e \<and> e \<le> 180 \<and>
               (\<exists>k::int. e = \<bar>fst q - snd q + 360 * of_int k\<bar>) \<and>
               (\<forall>k::int. e \<le> \<bar>fst q - snd q + 360 * of_int k\<bar>)) lps ?es"
    unfolding list_all2_map2
    by (rule list_all2_refl) (use min_dist in \<open>simp add: ang_err_def\<close>)
  show ?thesis by (rule exI [of _ ?es]) (use a b in blast)
qed

theorem err_metric_periodic_witness:
  "\<exists>err_df. err_metric enc_yaw [''yaw'' \<mapsto> [Fin 179]] [''yaw'' \<mapsto> [Fin (- 179)]] = Inr err_df \<and>
      df_data err_df ''yaw'' = Some [Fin 2]"
proof -
  obtain err_df where d:
    "err_metric enc_yaw [''yaw'' \<mapsto> [Fin 179]] [''yaw'' \<mapsto> [Fin (- 179)]] = Inr err_df"
    by (simp add: err_metric_def enc_yaw_def label_abs_err_def periodic_abs_err_def
        broadcast2_def df_setitem_def df_new_def)
  have t: "''yaw'' \<in> set (target_label_names enc_yaw)"
    and p: "''yaw'' \<in> set (periodic_label_names enc_yaw)"
    by (simp_all add: enc_yaw_def)
  have l: "[''yaw'' \<mapsto> [Fin 179]] ''yaw'' = Some (map (\<lambda>q. Fin (fst q)) [(179, - 179)])"
    and r: "[''yaw'' \<mapsto> [Fin (- 179)]] ''yaw'' = Some (map (\<lambda>q. Fin (snd q)) [(179, - 179)])"
    by simp_all
  have ne: "[(179::real, - 179::real)] \<noteq> []" by simp
  from err_metric_periodic [OF d t p l r ne]
  obtain e :: real where c: "df_data err_df ''yaw'' = Some [Fin e]"
    and ex: "\<exists>k::int. e = \<bar>179 - (- 179) + 360 * of_int k\<bar>"
    and al: "\<forall>k::int. e \<le> \<bar>179 - (- 179) + 360 * of_int k\<bar>"
    by (auto simp: list_all2_Cons1)
  from al have "e \<le> \<bar>179 - (- 179) + 360 * of_int (- 1)\<bar>" by blast
  then have le: "e \<le> 2" by simp
  from ex obtain k :: int where k: "e = \<bar>358 + 360 * of_int k\<bar>" by auto
  then have "- 1 \<le> (of_int k :: real)" and "(of_int k :: real) < 0" using le by linarith+
  then have "- 1 \<le> k" and "k < 0" by linarith+
  then have "k = - 1" by linarith
  then have "e = 2" using k by simp
  then show ?thesis using d c by simp
qed

section \<open>Clipping of the integral state\<close>

lemma length_vclip:
  "length (vclip xs lower upper) = min (length xs) (min (length lower) (length upper))"
  by (simp add: vclip_def)

lemma vclip_bounds:
  assumes "list_all2 (\<le>) lower upper" and "length xs = length lower"
  shows "list_all2 (\<le>) lower (vclip xs lower upper) \<and> list_all2 (\<le>) (vclip xs lower upper) upper"
proof -
  have len: "length upper = length lower" using assms(1) by (simp add: list_all2_lengthD)
  have le: "\<And>i. i < length lower \<Longrightarrow> lower ! i \<le> upper ! i"
    using assms(1) by (simp add: list_all2_conv_all_nth)
  show ?thesis
    using len assms(2) le
    by (auto simp: list_all2_conv_all_nth vclip_def clip_def)
qed

lemma PID_step_bounds:
  assumes "list_all2 (\<le>) (fst (ei_clip p)) (snd (ei_clip p))"
    and "length (ki p) = length (fst (ei_clip p))"
    and "length integral_state = length (fst (ei_clip p))"
    and "length e = length (fst (ei_clip p))"
  shows "list_all2 (\<le>) (fst (ei_clip p)) (fst (PID_step p integral_state e dt)) \<and>
         list_all2 (\<le>) (fst (PID_step p integral_state e dt)) (snd (ei_clip p))"
  using vclip_bounds [OF assms(1)] assms(2-4) by (simp add: PID_step_def Let_def)

lemma PID_step_length:
  assumes "list_all2 (\<le>) (fst (ei_clip p)) (snd (ei_clip p))"
    and "length (ki p) = length (fst (ei_clip p))"
    and "length integral_state = length (fst (ei_clip p))"
    and "length e = length (fst (ei_clip p))"
  shows "length (fst (PID_step p integral_state e dt)) = length (fst (ei_clip p))"
  using PID_step_bounds [OF assms, of dt] by (auto dest: list_all2_lengthD)

lemma fst_PID_run_Cons:
  "fst (PID_run p integral_state (e # es) dt) = fst (PID_run p (fst (PID_step p integral_state e dt)) es dt)"
  by (simp add: split_def Let_def)

text \<open>
  C4.  With \<open>ei_clip\<close>'s lower bound elementwise at most its upper bound, vectors of
  one length, any \<open>dt\<close> and any starting integral state, the integral state after every
  non-empty sequence of steps lies between the two bounds on every axis; a prefix of a
  sequence being a sequence, this holds after each step.  The witness is the scenario
  \<open>kp = [0.5]\<close>, \<open>ki = [0.3]\<close>, \<open>ei_clip = ([-5], [5])\<close>, errors \<open>2, 2, 2\<close>, \<open>dt = 1\<close>:
  the integral after three steps is \<open>1.8\<close> and the third output is \<open>2.8\<close>.
\<close>

theorem PID_integral_clipped:
  assumes "list_all2 (\<le>) (fst (ei_clip p)) (snd (ei_clip p))"
    and "length (ki p) = length (fst (ei_clip p))"
    and "length integral_state = length (fst (ei_clip p))"
    and "list_all (\<lambda>e. length e = length (fst (ei_clip p))) errors"
    and "errors \<noteq> []"
  shows "list_all2 (\<le>) (fst (ei_clip p)) (fst (PID_run p integral_state errors dt)) \<and>
         list_all2 (\<le>) (fst (PID_run p integral_state errors dt)) (snd (ei_clip p))"
  using assms(3-5)
proof (induction errors arbitrary: integral_state)
  case Nil
  then show ?case by simp
next
  case (Cons e es)
  have le: "length e = length (fst (ei_clip p))" using Cons.prems(2) by simp
  note b = PID_step_bounds [OF assms(1) assms(2) Cons.prems(1) le, of dt]
  note n = PID_step_length [OF assms(1) assms(2) Cons.prems(1) le, of dt]
  show ?case
  proof (cases es)
    case Nil
    then show ?thesis using b unfolding fst_PID_run_Cons by simp
  next
    case (Cons e' es')
    then have "es \<noteq> []" by simp
    moreover have "list_all (\<lambda>e. length e = length (fst (ei_clip p))) es"
      using Cons.prems(2) by simp
    ultimately show ?thesis using Cons.IH [OF n] unfolding fst_PID_run_Cons by simp
  qed
qed

theorem PID_integral_clipped_witness:
  "list_all2 (\<le>) (fst (ei_clip pid_example)) (snd (ei_clip pid_example)) \<and>
   PID_run pid_example (PID_reset pid_example) [[2], [2], [2]] 1
     = ([1.8], [[1.6], [2.2], [2.8]]) \<and>
   list_all2 (\<le>) (fst (ei_clip pid_example))
     (fst (PID_run pid_example (PID_reset pid_example) [[2], [2], [2]] 1)) \<and>
   list_all2 (\<le>) (fst (PID_run pid_example (PID_reset pid_example) [[2], [2], [2]] 1))
     (snd (ei_clip pid_example))"
proof -
  have a: "list_all2 (\<le>) (fst (ei_clip pid_example)) (snd (ei_clip pid_example))"
    by (simp add: pid_example_def)
  have b: "length (ki pid_example) = length (fst (ei_clip pid_example))"
    by (simp add: pid_example_def)
  have c: "length (PID_reset pid_example) = length (fst (ei_clip pid_example))"
    by (simp add: pid_example_def PID_reset_def)
  have d: "list_all (\<lambda>e. length e = length (fst (ei_clip pid_example))) [[2], [2], [2::real]]"
    by (simp add: pid_example_def)
  have e: "[[2], [2], [2::real]] \<noteq> []" by simp
  have r: "PID_run pid_example (PID_reset pid_example) [[2], [2], [2]] 1
     = ([1.8], [[1.6], [2.2], [2.8]])"
    by (simp add: pid_example_def PID_reset_def PID_step_def vclip_def clip_def Let_def)
  from PID_integral_clipped [OF a b c d e, of 1] a r show ?thesis by simp
qed

section \<open>The control parameters of the four tasks\<close>

text \<open>
  C9.  For each of the four tasks \<open>setup_control_params\<close> returns control parameters
  that satisfy the invariant of ControlParams: \<open>ep_len\<close> is positive, \<open>kp\<close>, \<open>ki\<close>
  and both bounds of \<open>ei_clip\<close> have length 6, and the lower bound is at most the upper
  bound on every axis.
\<close>

theorem setup_control_params_ok:
  assumes "task \<in> {''surface_3d'', ''edge_2d'', ''edge_3d'', ''edge_5d''}"
  shows "\<exists>cp. setup_control_params task save_dir = Inr cp \<and> control_params_ok cp"
  using assms by (auto simp: setup_control_params_def control_params_ok_def)

theorem setup_control_params_ok_witness:
  "''edge_2d'' \<in> {''surface_3d'', ''edge_2d'', ''edge_3d'', ''edge_5d''} \<and>
   (\<exists>cp. setup_control_params ''edge_2d'' None = Inr cp \<and> control_params_ok cp \<and>
      ep_len cp = 50 \<and> ei_clip (pid_params cp) = ([-5, 0, 0, 0, 0, -45], [5, 0, 0, 0, 0, 45]))"
proof -
  have m: "''edge_2d'' \<in> {''surface_3d'', ''edge_2d'', ''edge_3d'', ''edge_5d''}" by simp
  from setup_control_params_ok [OF m, of None] m show ?thesis
    by (auto simp: setup_control_params_def)
qed

section \<open>The accuracy metric\<close>

lemma df_rows_new: "df_rows B (df_new cols)"
  by (simp add: df_rows_def df_new_def)

lemma df_setitem_rows:
  assumes "df_rows B df" and "df_setitem df name arr = Inr df'" and "length arr = B"
  shows "df_data df' = (df_data df)(name \<mapsto> arr)" and "df_rows B df'"
proof -
  show d: "df_data df' = (df_data df)(name \<mapsto> arr)"
  proof (cases "df_nrows df = 0")
    case True
    have "map_option (\<lambda>c. replicate (length arr) NaN) (df_data df k) = df_data df k" for k
    proof (cases "df_data df k")
      case None then show ?thesis by simp
    next
      case (Some c)
      then have "df_data df \<noteq> Map.empty" by auto
      then have "B = 0" and "length c = 0"
        using assms(1) True Some by (auto simp: df_rows_def ran_def)
      then show ?thesis using Some assms(3) by simp
    qed
    then show ?thesis using assms(2) True by (auto simp: df_setitem_def Let_def)
  next
    case False
    then show ?thesis using assms(2) by (auto simp: df_setitem_def Let_def split: if_splits)
  qed
  have n: "df_nrows df' = B"
    using assms(2,3) by (auto simp: df_setitem_def Let_def split: if_splits)
  have "\<forall>c \<in> ran (df_data df'). length c = B"
    using assms(1,3) unfolding d by (auto simp: df_rows_def ran_def split: if_splits)
  then show "df_rows B df'" using n by (simp add: df_rows_def)
qed

lemma acc_loop_ConsE:
  assumes "acc_loop err_df ov0 acc0 ((l, t) # rest) = Inr (ov, acc)"
  obtains errs acc1 where "df_getitem err_df l = Inr errs"
    and "length ov0 = length errs"
    and "df_setitem acc0 l (map bool_float (map (\<lambda>e. flt e (Fin t)) errs)) = Inr acc1"
    and "acc_loop err_df (map2 (\<and>) ov0 (map (\<lambda>e. flt e (Fin t)) errs)) acc1 rest = Inr (ov, acc)"
  using assms by (auto simp: Let_def split: sum.splits if_splits)

lemma acc_loop_shape:
  "acc_loop err_df ov0 acc0 zs = Inr (ov, acc) \<Longrightarrow> df_rows B acc0 \<Longrightarrow> length ov0 = B \<Longrightarrow>
     df_rows B acc \<and> length ov = B"
proof (induction zs arbitrary: ov0 acc0)
  case Nil
  then show ?case by simp
next
  case (Cons z zs)
  obtain l t where z: "z = (l, t)" by (cases z)
  from Cons.prems(1) [unfolded z] obtain errs acc1 where
      g: "df_getitem err_df l = Inr errs" and n: "length ov0 = length errs"
      and s: "df_setitem acc0 l (map bool_float (map (\<lambda>e. flt e (Fin t)) errs)) = Inr acc1"
      and r: "acc_loop err_df (map2 (\<and>) ov0 (map (\<lambda>e. flt e (Fin t)) errs)) acc1 zs = Inr (ov, acc)"
    by (rule acc_loop_ConsE)
  have "df_rows B acc1" using df_setitem_rows(2) [OF Cons.prems(2) s] n Cons.prems(3) by simp
  moreover have "length (map2 (\<and>) ov0 (map (\<lambda>e. flt e (Fin t)) errs)) = B"
    using n Cons.prems(3) by simp
  ultimately show ?case using Cons.IH [OF r] by simp
qed

lemma acc_loop_overall:
  "acc_loop err_df ov0 acc0 zs = Inr (ov, acc) \<Longrightarrow> j < length ov0 \<Longrightarrow>
     ov ! j = (ov0 ! j \<and>
       (\<forall>z \<in> set zs. \<exists>errs. df_getitem err_df (fst z) = Inr errs \<and> flt (errs ! j) (Fin (snd z))))"
proof (induction zs arbitrary: ov0 acc0)
  case Nil
  then show ?case by simp
next
  case (Cons z zs)
  obtain l t where z: "z = (l, t)" by (cases z)
  from Cons.prems(1) [unfolded z] obtain errs acc1 where
      g: "df_getitem err_df l = Inr errs" and n: "length ov0 = length errs"
      and s: "df_setitem acc0 l (map bool_float (map (\<lambda>e. flt e (Fin t)) errs)) = Inr acc1"
      and r: "acc_loop err_df (map2 (\<and>) ov0 (map (\<lambda>e. flt e (Fin t)) errs)) acc1 zs = Inr (ov, acc)"
    by (rule acc_loop_ConsE)
  have j: "j < length (map2 (\<and>) ov0 (map (\<lambda>e. flt e (Fin t)) errs))"
    using n Cons.prems(2) by simp
  have "map2 (\<and>) ov0 (map (\<lambda>e. flt e (Fin t)) errs) ! j = (ov0 ! j \<and> flt (errs ! j) (Fin t))"
    using n Cons.prems(2) by simp
  then show ?case using Cons.IH [OF r j] g z by auto
qed

lemma acc_loop_other:
  "acc_loop err_df ov0 acc0 zs = Inr (ov, acc) \<Longrightarrow> df_rows B acc0 \<Longrightarrow> length ov0 = B \<Longrightarrow>
     k \<notin> fst ` set zs \<Longrightarrow> df_data acc k = df_data acc0 k"
proof (induction zs arbitrary: ov0 acc0)
  case Nil
  then show ?case by simp
next
  case (Cons z zs)
  obtain l t where z: "z = (l, t)" by (cases z)
  from Cons.prems(1) [unfolded z] obtain errs acc1 where
      g: "df_getitem err_df l = Inr errs" and n: "length ov0 = length errs"
      and s: "df_setitem acc0 l (map bool_float (map (\<lambda>e. flt e (Fin t)) errs)) = Inr acc1"
      and r: "acc_loop err_df (map2 (\<and>) ov0 (map (\<lambda>e. flt e (Fin t)) errs)) acc1 zs = Inr (ov, acc)"
    by (rule acc_loop_ConsE)
  have len: "length (map bool_float (map (\<lambda>e. flt e (Fin t)) errs)) = B"
    using n Cons.prems(3) by simp
  note d = df_setitem_rows [OF Cons.prems(2) s len]
  have "length (map2 (\<and>) ov0 (map (\<lambda>e. flt e (Fin t)) errs)) = B"
    using n Cons.prems(3) by simp
  moreover have "k \<notin> fst ` set zs" and "k \<noteq> l" using Cons.prems(4) z by auto
  ultimately show ?case using Cons.IH [OF r d(2)] d(1) by simp
qed

lemma acc_loop_columns:
  "acc_loop err_df ov0 acc0 zs = Inr (ov, acc) \<Longrightarrow> df_rows B acc0 \<Longrightarrow> length ov0 = B \<Longrightarrow>
     distinct (map fst zs) \<Longrightarrow> z \<in> set zs \<Longrightarrow>
     \<exists>errs. df_getitem err_df (fst z) = Inr errs \<and> length errs = B \<and>
       df_data acc (fst z) = Some (map (\<lambda>e. bool_float (flt e (Fin (snd z)))) errs)"
proof (induction zs arbitrary: ov0 acc0)
  case Nil
  then show ?case by simp
next
  case (Cons y zs)
  obtain l t where y: "y = (l, t)" by (cases y)
  from Cons.prems(1) [unfolded y] obtain errs acc1 where
      g: "df_getitem err_df l = Inr errs" and n: "length ov0 = length errs"
      and s: "df_setitem acc0 l (map bool_float (map (\<lambda>e. flt e (Fin t)) errs)) = Inr acc1"
      and r: "acc_loop err_df (map2 (\<and>) ov0 (map (\<lambda>e. flt e (Fin t)) errs)) acc1 zs = Inr (ov, acc)"
    by (rule acc_loop_ConsE)
  have len: "length (map bool_float (map (\<lambda>e. flt e (Fin t)) errs)) = B"
    using n Cons.prems(3) by simp
  note d = df_setitem_rows [OF Cons.prems(2) s len]
  have len2: "length (map2 (\<and>) ov0 (map (\<lambda>e. flt e (Fin t)) errs)) = B"
    using n Cons.prems(3) by simp
  show ?case
  proof (cases "z = y")
    case True
    have "l \<notin> fst ` set zs" using Cons.prems(4) y by auto
    then have "df_data acc l = df_data acc1 l"
      using acc_loop_other [OF r d(2) len2] by simp
    then show ?thesis using True y g d(1) n Cons.prems(3) by (simp add: o_def)
  next
    case False
    then have "z \<in> set zs" using Cons.prems(5) by simp
    moreover have "distinct (map fst zs)" using Cons.prems(4) by simp
    ultimately show ?thesis using Cons.IH [OF r d(2) len2] by simp
  qed
qed


lemma bool_float_one: "(bool_float b = Fin 1) = b"
  by (simp add: bool_float_def)

lemma acc_metric_column:
  assumes "acc_metric enc err_df = Inr acc_df"
    and "length (tolerences enc) = length (target_label_names enc)"
    and "distinct (target_label_names enc)"
    and "''overall_acc'' \<notin> set (target_label_names enc)"
    and i: "i < length (target_label_names enc)"
  shows "\<exists>errs. df_getitem err_df (target_label_names enc ! i) = Inr errs \<and>
              length errs = df_nrows err_df \<and>
              df_data acc_df (target_label_names enc ! i) =
                Some (map (\<lambda>e. bool_float (flt e (Fin (tolerences enc ! i)))) errs)"
proof -
  let ?B = "df_nrows err_df"
  let ?zs = "zip (target_label_names enc) (tolerences enc)"
  let ?acc0 = "df_new (label_names enc @ [''overall_acc''])"
  from assms(1) obtain ov acc1 where
      r: "acc_loop err_df (replicate ?B True) ?acc0 ?zs = Inr (ov, acc1)"
      and s: "df_setitem acc1 ''overall_acc'' (map bool_float ov) = Inr acc_df"
    by (auto simp: acc_metric_def Let_def split: sum.splits)
  have w0: "df_rows ?B ?acc0" by (rule df_rows_new)
  have l0: "length (replicate ?B True) = ?B" by simp
  note sh = acc_loop_shape [OF r w0 l0]
  have lov: "length (map bool_float ov) = ?B" using sh by simp
  note fin = df_setitem_rows [OF conjunct1 [OF sh] s lov]
  have dz: "distinct (map fst ?zs)" using assms(2,3) by simp
  have m: "(target_label_names enc ! i, tolerences enc ! i) \<in> set ?zs"
    using i assms(2) by (metis in_set_zip fst_conv snd_conv)
  have ne: "target_label_names enc ! i \<noteq> ''overall_acc''"
    using assms(4) i by (metis nth_mem)
  from acc_loop_columns [OF r w0 l0 dz m] ne show ?thesis
    unfolding fin(1) by simp
qed

text \<open>
  C5.  When \<open>acc_metric\<close> returns, for a LabelEncoder with one tolerance per target and
  distinct target names (none of them \<open>overall_acc\<close>): the column of every target axis
  holds, row by row, \<open>1\<close> when the error is strictly less than the tolerance of that axis
  and \<open>0\<close> otherwise (\<open>flt\<close> is the \<open><\<close> of floats, so an error equal to the tolerance
  counts as not correct); and the column \<open>overall_acc\<close> holds \<open>1\<close> in a row exactly when
  every target axis holds \<open>1\<close> in that row.
\<close>

theorem acc_metric_strict_and:
  assumes "acc_metric enc err_df = Inr acc_df"
    and "length (tolerences enc) = length (target_label_names enc)"
    and "distinct (target_label_names enc)"
    and "''overall_acc'' \<notin> set (target_label_names enc)"
  shows "(\<forall>i < length (target_label_names enc).
            \<exists>errs. df_getitem err_df (target_label_names enc ! i) = Inr errs \<and>
              length errs = df_nrows err_df \<and>
              df_data acc_df (target_label_names enc ! i) =
                Some (map (\<lambda>e. bool_float (flt e (Fin (tolerences enc ! i)))) errs)) \<and>
         (\<exists>ov. df_data acc_df ''overall_acc'' = Some (map bool_float ov) \<and>
            length ov = df_nrows err_df \<and>
            (\<forall>j < df_nrows err_df.
               ov ! j = (\<forall>i < length (target_label_names enc).
                 \<exists>c. df_data acc_df (target_label_names enc ! i) = Some c \<and> c ! j = Fin 1)))"
proof -
  let ?B = "df_nrows err_df"
  let ?zs = "zip (target_label_names enc) (tolerences enc)"
  let ?acc0 = "df_new (label_names enc @ [''overall_acc''])"
  from assms(1) obtain ov acc1 where
      r: "acc_loop err_df (replicate ?B True) ?acc0 ?zs = Inr (ov, acc1)"
      and s: "df_setitem acc1 ''overall_acc'' (map bool_float ov) = Inr acc_df"
    by (auto simp: acc_metric_def Let_def split: sum.splits)
  have w0: "df_rows ?B ?acc0" by (rule df_rows_new)
  have l0: "length (replicate ?B True) = ?B" by simp
  note sh = acc_loop_shape [OF r w0 l0]
  have lov: "length (map bool_float ov) = ?B" using sh by simp
  note fin = df_setitem_rows [OF conjunct1 [OF sh] s lov]
  have dz: "distinct (map fst ?zs)" using assms(2,3) by simp
  have col: "\<exists>errs. df_getitem err_df (target_label_names enc ! i) = Inr errs \<and>
              length errs = ?B \<and>
              df_data acc_df (target_label_names enc ! i) =
                Some (map (\<lambda>e. bool_float (flt e (Fin (tolerences enc ! i)))) errs)"
    if i: "i < length (target_label_names enc)" for i
    using acc_metric_column [OF assms i] .
  have ovj: "ov ! j = (\<forall>i < length (target_label_names enc).
                 \<exists>c. df_data acc_df (target_label_names enc ! i) = Some c \<and> c ! j = Fin 1)"
    if j: "j < ?B" for j
  proof -
    have "ov ! j = (replicate ?B True ! j \<and>
       (\<forall>z \<in> set ?zs. \<exists>errs. df_getitem err_df (fst z) = Inr errs \<and> flt (errs ! j) (Fin (snd z))))"
      using acc_loop_overall [OF r] j by simp
    then have a: "ov ! j =
       (\<forall>z \<in> set ?zs. \<exists>errs. df_getitem err_df (fst z) = Inr errs \<and> flt (errs ! j) (Fin (snd z)))"
      using j by simp
    have b: "(\<forall>z \<in> set ?zs. \<exists>errs. df_getitem err_df (fst z) = Inr errs \<and> flt (errs ! j) (Fin (snd z)))
       = (\<forall>i < length (target_label_names enc).
            \<exists>errs. df_getitem err_df (target_label_names enc ! i) = Inr errs \<and>
              flt (errs ! j) (Fin (tolerences enc ! i)))"
      using assms(2) by (auto simp: set_zip)
    have c: "(\<exists>errs. df_getitem err_df (target_label_names enc ! i) = Inr errs \<and>
              flt (errs ! j) (Fin (tolerences enc ! i)))
        = (\<exists>c. df_data acc_df (target_label_names enc ! i) = Some c \<and> c ! j = Fin 1)"
      if i: "i < length (target_label_names enc)" for i
      using col [OF i] j by (auto simp: bool_float_one)
    show ?thesis unfolding a b using c by simp
  qed
  have "df_data acc_df ''overall_acc'' = Some (map bool_float ov)" unfolding fin(1) by simp
  moreover have "length ov = ?B" using sh by simp
  ultimately show ?thesis using col ovj by blast
qed

theorem acc_metric_strict_and_witness:
  "\<exists>acc_df. acc_metric enc_xy err_xy = Inr acc_df \<and>
     length (tolerences enc_xy) = length (target_label_names enc_xy) \<and>
     distinct (target_label_names enc_xy) \<and>
     ''overall_acc'' \<notin> set (target_label_names enc_xy) \<and>
     df_data acc_df ''x'' = Some [Fin 1, Fin 0, Fin 1] \<and>
     df_data acc_df ''y'' = Some [Fin 1, Fin 1, Fin 0] \<and>
     df_data acc_df ''overall_acc'' = Some [Fin 1, Fin 0, Fin 0] \<and>
     (\<exists>ov. df_data acc_df ''overall_acc'' = Some (map bool_float ov) \<and>
        length ov = df_nrows err_xy \<and>
        (\<forall>j < df_nrows err_xy.
           ov ! j = (\<forall>i < length (target_label_names enc_xy).
             \<exists>c. df_data acc_df (target_label_names enc_xy ! i) = Some c \<and> c ! j = Fin 1)))"
proof -
  obtain acc_df where a: "acc_metric enc_xy err_xy = Inr acc_df"
    and x: "df_data acc_df ''x'' = Some [Fin 1, Fin 0, Fin 1]"
    and y: "df_data acc_df ''y'' = Some [Fin 1, Fin 1, Fin 0]"
    and o: "df_data acc_df ''overall_acc'' = Some [Fin 1, Fin 0, Fin 0]"
    by (simp add: acc_metric_def enc_xy_def err_xy_def df_getitem_def df_setitem_def
        df_new_def bool_float_def Let_def numeral_3_eq_3)
  have l: "length (tolerences enc_xy) = length (target_label_names enc_xy)"
    and d: "distinct (target_label_names enc_xy)"
    and n: "''overall_acc'' \<notin> set (target_label_names enc_xy)"
    by (simp_all add: enc_xy_def)
  from acc_metric_strict_and [OF a l d n] a l d n x y o show ?thesis by blast
qed

section \<open>The key of the tolerances\<close>

lemma LabelEncoder_init_cong:
  assumes "\<And>k. k \<in> {''label_names'', ''target_label_names'', ''periodic_label_names'',
                      ''target_weights'', ''tolerences'', ''llims'', ''ulims''} \<Longrightarrow> tp k = tp' k"
  shows "LabelEncoder_init tp = LabelEncoder_init tp'"
proof -
  have "tp ''label_names'' = tp' ''label_names''"
    and "tp ''target_label_names'' = tp' ''target_label_names''"
    and "tp ''periodic_label_names'' = tp' ''periodic_label_names''"
    and "tp ''target_weights'' = tp' ''target_weights''"
    and "tp ''tolerences'' = tp' ''tolerences''"
    and "tp ''llims'' = tp' ''llims''"
    and "tp ''ulims'' = tp' ''ulims''"
    by (rule assms, simp)+
  then have "get_strs tp ''label_names'' = get_strs tp' ''label_names''"
    and "get_strs tp ''target_label_names'' = get_strs tp' ''target_label_names''"
    and "\<And>d. get_strs_default tp ''periodic_label_names'' d
           = get_strs_default tp' ''periodic_label_names'' d"
    and "\<And>d. get_nums_default tp ''target_weights'' d
           = get_nums_default tp' ''target_weights'' d"
    and "\<And>d. get_nums_default tp ''tolerences'' d = get_nums_default tp' ''tolerences'' d"
    and "get_nums tp ''llims'' = get_nums tp' ''llims''"
    and "get_nums tp ''ulims'' = get_nums tp' ''ulims''"
    by (simp_all add: get_strs_def get_nums_def get_strs_default_def get_nums_default_def
        cong: option.case_cong)
  then show ?thesis unfolding LabelEncoder_init_def
    by (simp cong: sum.case_cong)
qed

lemma LabelEncoder_init_tolerences:
  assumes "LabelEncoder_init tp = Inr enc"
  shows "tp ''tolerences'' = None \<Longrightarrow>
           tolerences enc = replicate (length (target_label_names enc)) 1"
    and "tp ''tolerences'' = Some (NumList ts) \<Longrightarrow> tolerences enc = map num_val ts"
  using assms
  by (auto simp: LabelEncoder_init_def get_strs_def get_nums_def get_strs_default_def
      get_nums_default_def np_ones_def Let_def split: sum.splits option.splits pyval.splits)


text \<open>
  C10.  For a \<open>task_params\<close> without the key \<open>tolerences\<close>: whatever stands under
  the key \<open>tolerances\<close> (any value, or nothing) the same LabelEncoder is built; its
  thresholds are the default, one per target and all equal to 1; and \<open>acc_metric\<close>
  compares the errors of every target axis with 1.  Thresholds given under the key
  \<open>tolerences\<close> are the ones the encoder takes.
\<close>

theorem tolerances_key_ignored:
  assumes "task_params ''tolerences'' = None"
    and "LabelEncoder_init task_params = Inr enc"
    and "distinct (target_label_names enc)"
    and "''overall_acc'' \<notin> set (target_label_names enc)"
    and "acc_metric enc err_df = Inr acc_df"
  shows "LabelEncoder_init (task_params(''tolerances'' := u)) = Inr enc \<and>
         tolerences enc = replicate (length (target_label_names enc)) 1 \<and>
         (\<forall>i < length (target_label_names enc).
            \<exists>errs. df_getitem err_df (target_label_names enc ! i) = Inr errs \<and>
              df_data acc_df (target_label_names enc ! i) =
                Some (map (\<lambda>e. bool_float (flt e (Fin 1))) errs)) \<and>
         (\<forall>ts enc'. LabelEncoder_init (task_params(''tolerences'' \<mapsto> NumList ts)) = Inr enc'
            \<longrightarrow> tolerences enc' = map num_val ts)"
proof (intro conjI allI impI)
  have "LabelEncoder_init (task_params(''tolerances'' := u)) = LabelEncoder_init task_params"
    by (rule LabelEncoder_init_cong) auto
  then show "LabelEncoder_init (task_params(''tolerances'' := u)) = Inr enc"
    using assms(2) by simp
next
  show t: "tolerences enc = replicate (length (target_label_names enc)) 1"
    using LabelEncoder_init_tolerences(1) [OF assms(2) assms(1)] .
  fix i assume i: "i < length (target_label_names enc)"
  have l: "length (tolerences enc) = length (target_label_names enc)" using t by simp
  have "tolerences enc ! i = 1" using t i by simp
  then show "\<exists>errs. df_getitem err_df (target_label_names enc ! i) = Inr errs \<and>
              df_data acc_df (target_label_names enc ! i) =
                Some (map (\<lambda>e. bool_float (flt e (Fin 1))) errs)"
    using acc_metric_column [OF assms(5) l assms(3) assms(4) i] by auto
next
  fix ts enc'
  assume "LabelEncoder_init (task_params(''tolerences'' \<mapsto> NumList ts)) = Inr enc'"
  then show "tolerences enc' = map num_val ts"
    by (rule LabelEncoder_init_tolerences(2)) simp
qed

theorem tolerances_key_ignored_witness:
  "\<exists>enc acc_df.
     tp_tolerances ''tolerances'' = Some (NumList [PyFloat 0.1, PyFloat 0.1]) \<and>
     tp_tolerances ''tolerences'' = None \<and>
     LabelEncoder_init tp_tolerances = Inr enc \<and>
     distinct (target_label_names enc) \<and>
     ''overall_acc'' \<notin> set (target_label_names enc) \<and>
     acc_metric enc err_xy = Inr acc_df \<and>
     tolerences enc = [1, 1] \<and>
     df_data acc_df ''x'' = Some [Fin 1, Fin 0, Fin 1] \<and>
     LabelEncoder_init (tp_tolerances(''tolerances'' := None)) = Inr enc"
proof -
  let ?enc = "\<lparr>label_names = [''x'', ''y'', ''z''], target_label_names = [''x'', ''y''],
               periodic_label_names = [], target_weights = [PyFloat 1, PyFloat 1],
               tolerences = [1, 1], llims = [-5, -5, -5], ulims = [5, 5, 5]\<rparr>"
  have v: "tp_tolerances ''tolerances'' = Some (NumList [PyFloat 0.1, PyFloat 0.1])"
    and n: "tp_tolerances ''tolerences'' = None"
    by (simp_all add: tp_tolerances_def)
  have e: "LabelEncoder_init tp_tolerances = Inr ?enc"
    by (simp add: LabelEncoder_init_def tp_tolerances_def get_strs_def get_nums_def
        get_strs_default_def get_nums_default_def np_ones_def numeral_2_eq_2)
  have d: "distinct (target_label_names ?enc)"
    and o: "''overall_acc'' \<notin> set (target_label_names ?enc)"
    by simp_all
  obtain acc_df where a: "acc_metric ?enc err_xy = Inr acc_df"
    and x: "df_data acc_df ''x'' = Some [Fin 1, Fin 0, Fin 1]"
    by (simp add: acc_metric_def err_xy_def df_getitem_def df_setitem_def
        df_new_def bool_float_def Let_def numeral_3_eq_3)
  from tolerances_key_ignored [OF n e d o a, of None] v n e d o a x show ?thesis
    by (intro exI [of _ ?enc] exI [of _ acc_df]) simp
qed

section \<open>Equal limits\<close>

lemma encode_norm_flat_elem:
  "fsub (fmul (fdiv (fsub (Fin v) (Fin lm)) (fsub (Fin lm) (Fin lm))) (Fin 2)) (Fin 1) =
     (if v < lm then NInf else if lm < v then PInf else NaN)"
  by (simp add: fsub_def inf_times_def)

text \<open>
  C7, as stated, fails: with \<open>llims = ulims = [5]\<close> the encoder is built without
  error, \<open>encode_norm\<close> of the value 3 returns the tensor \<open>[-inf]\<close> and
  \<open>encode_label\<close> returns it as an encoded label; no error is raised.
\<close>

theorem encode_norm_equal_limits_counterexample:
  "LabelEncoder_init tp_flat = Inr enc_flat \<and>
   label_lim enc_flat (llims enc_flat) ''x'' = Inr 5 \<and>
   label_lim enc_flat (ulims enc_flat) ''x'' = Inr 5 \<and>
   encode_norm enc_flat [Fin 3] ''x'' = Inr [NInf] \<and>
   encode_label enc_flat [''x'' \<mapsto> [Fin 3]] = Inr \<lparr>shape0 = 1, columns = [[NInf]]\<rparr>"
  by (simp add: LabelEncoder_init_def tp_flat_def get_strs_def get_nums_def
      get_strs_default_def get_nums_default_def np_ones_def enc_flat_def
      label_lim_def getitem_def encode_norm_def encode_label_def torch_cat_def
      tensor_scale_def fsub_def inf_times_def)

text \<open>
  C7, amended.  For a label whose upper limit equals its lower limit, \<open>encode_norm\<close>
  raises no error: it returns, for every finite value of the batch, \<open>-inf\<close> when the
  value is below the limit, \<open>+inf\<close> when it is above and NaN when it equals the limit.
\<close>

theorem encode_norm_equal_limits:
  assumes "label_lim enc (llims enc) label_name = Inr lm"
    and "label_lim enc (ulims enc) label_name = Inr lm"
  shows "encode_norm enc (map Fin vs) label_name =
           Inr (map (\<lambda>v. if v < lm then NInf else if lm < v then PInf else NaN) vs)"
  using assms by (simp add: encode_norm_def encode_norm_flat_elem o_def)

theorem encode_norm_equal_limits_witness:
  "label_lim enc_flat (llims enc_flat) ''x'' = Inr 5 \<and>
   label_lim enc_flat (ulims enc_flat) ''x'' = Inr 5 \<and>
   encode_norm enc_flat (map Fin [3, 5, 7]) ''x'' = Inr [NInf, NaN, PInf]"
proof -
  have l: "label_lim enc_flat (llims enc_flat) ''x'' = Inr 5"
    and u: "label_lim enc_flat (ulims enc_flat) ''x'' = Inr 5"
    by (simp_all add: label_lim_def enc_flat_def getitem_def)
  from encode_norm_equal_limits [OF l u, of "[3, 5, 7]"] l u show ?thesis by simp
qed

section \<open>The width of the tensor that is decoded\<close>

lemma sum_list_indicator:
  "sum_list (map (\<lambda>p. if p = t then 1 else 0) ps) = count_list ps t"
  by (induction ps) simp_all

lemma count_list_distinct: "distinct ps \<Longrightarrow> count_list ps t = (if t \<in> set ps then 1 else 0)"
  by (induction ps) auto

lemma sum_count_list:
  "distinct ps \<Longrightarrow>
     sum_list (map (\<lambda>p. count_list ts p) ps) = length (filter (\<lambda>t. t \<in> set ps) ts)"
proof (induction ts)
  case Nil
  then show ?case by simp
next
  case (Cons t ts)
  have "sum_list (map (\<lambda>p. count_list (t # ts) p) ps)
      = sum_list (map (\<lambda>p. count_list ts p + (if p = t then 1 else 0)) ps)"
    by (rule arg_cong [where f = sum_list]) auto
  also have "\<dots> = sum_list (map (\<lambda>p. count_list ts p) ps) + count_list ps t"
    by (simp add: sum_list_addf sum_list_indicator)
  finally show ?case using Cons by (simp add: count_list_distinct)
qed

lemma out_dim_widths:
  assumes "distinct (periodic_label_names enc)"
  shows "out_dim enc = sum_list (map (label_width enc) (target_label_names enc))"
proof -
  have "sum_list (map (label_width enc) ts) =
      length ts + length (filter (\<lambda>t. t \<in> set (periodic_label_names enc)) ts)" for ts
    by (induction ts) (simp_all add: label_width_def)
  then show ?thesis using sum_count_list [OF assms] by (simp add: out_dim_def)
qed

lemma decode_loop_narrow:
  "ind \<le> length (columns outputs) \<Longrightarrow>
   length (columns outputs) < ind + sum_list (map (\<lambda>z. label_width enc (fst z)) zs) \<Longrightarrow>
     \<exists>e. decode_loop enc outputs ind d zs = Inl e"
proof (induction zs arbitrary: ind d)
  case Nil
  then show ?case by simp
next
  case (Cons z zs)
  obtain l w where z: "z = (l, w)" by (cases z)
  show ?case
  proof (cases "l \<in> set (periodic_label_names enc)")
    case False
    show ?thesis
    proof (cases "ind < length (columns outputs)")
      case True
      then have a: "ind + 1 \<le> length (columns outputs)" by simp
      have b: "length (columns outputs) < (ind + 1) + sum_list (map (\<lambda>z. label_width enc (fst z)) zs)"
        using Cons.prems(2) z False by (simp add: label_width_def)
      from Cons.IH [OF a b] show ?thesis
        using False z by (auto simp: getitem_def split: sum.splits)
    next
      case False
      then show ?thesis using \<open>l \<notin> set (periodic_label_names enc)\<close> z
        by (simp add: getitem_def)
    qed
  next
    case True
    show ?thesis
    proof (cases "ind + 1 < length (columns outputs)")
      case True
      then have a: "ind + 2 \<le> length (columns outputs)" by simp
      have b: "length (columns outputs) < (ind + 2) + sum_list (map (\<lambda>z. label_width enc (fst z)) zs)"
        using Cons.prems(2) z \<open>l \<in> set (periodic_label_names enc)\<close> by (simp add: label_width_def)
      from Cons.IH [OF a b] show ?thesis
        using \<open>l \<in> set (periodic_label_names enc)\<close> z
        by (auto simp: getitem_def split: sum.splits)
    next
      case False
      then show ?thesis using \<open>l \<in> set (periodic_label_names enc)\<close> z
        by (auto simp: getitem_def)
    qed
  qed
qed

lemma getitem_take: "i < n \<Longrightarrow> getitem (take n xs) i = getitem xs i"
  by (simp add: getitem_def)

lemma decode_loop_take:
  "ind + sum_list (map (\<lambda>z. label_width enc (fst z)) zs) \<le> n \<Longrightarrow>
     decode_loop enc (outputs\<lparr>columns := take n (columns outputs)\<rparr>) ind d zs =
     decode_loop enc outputs ind d zs"
proof (induction zs arbitrary: ind d)
  case Nil
  then show ?case by simp
next
  case (Cons z zs)
  obtain l w where z: "z = (l, w)" by (cases z)
  show ?case
  proof (cases "l \<in> set (periodic_label_names enc)")
    case False
    then have i: "ind < n" and r: "(ind + 1) + sum_list (map (\<lambda>z. label_width enc (fst z)) zs) \<le> n"
      using Cons.prems z by (simp_all add: label_width_def)
    show ?thesis
      using False z getitem_take [OF i, of "columns outputs"] Cons.IH [OF r]
      by (auto simp: fun_upd_def split: sum.splits)
  next
    case True
    then have i: "ind < n" and j: "ind + 1 < n"
      and r: "(ind + 2) + sum_list (map (\<lambda>z. label_width enc (fst z)) zs) \<le> n"
      using Cons.prems z by (simp_all add: label_width_def)
    show ?thesis
      using True z getitem_take [OF i, of "columns outputs"]
        getitem_take [OF j, of "columns outputs"] Cons.IH [OF r]
      by (auto simp: fun_upd_def split: sum.splits)
  qed
qed

lemma zip_widths:
  "length ws = length ts \<Longrightarrow>
     sum_list (map (\<lambda>z. label_width enc (fst z)) (zip ts ws)) = sum_list (map (label_width enc) ts)"
  by (induction ts ws rule: list_induct2') simp_all

text \<open>
  C8, as stated, fails: for an encoder with \<open>out_dim = 1\<close> and an output tensor of two
  columns, \<open>decode_label\<close> returns a decoded pose; the second column is never read and
  no error is raised.
\<close>

theorem decode_label_width_counterexample:
  "out_dim enc_x = 1 \<and> length (columns wide_outputs) = 2 \<and>
   (\<exists>d. decode_label enc_x wide_outputs = Inr d \<and> d ''x'' = Some [Fin 2.5])"
  by (simp add: out_dim_def enc_x_def wide_outputs_def decode_label_def getitem_def
      decode_norm_def label_lim_def tensor_div_def fsub_def)

text \<open>
  C8, amended.  For a LabelEncoder with one weight per target and no name twice among
  its periodic names: an output tensor with fewer columns than \<open>out_dim\<close> makes
  \<open>decode_label\<close> end in an error (nothing is zero-filled); an output tensor with at least
  \<open>out_dim\<close> columns is decoded exactly as its first \<open>out_dim\<close> columns are, the
  columns beyond them being ignored.
\<close>

theorem decode_label_width:
  assumes "length (target_weights enc) = length (target_label_names enc)"
    and "distinct (periodic_label_names enc)"
  shows "(length (columns outputs) < out_dim enc \<longrightarrow> (\<exists>e. decode_label enc outputs = Inl e)) \<and>
         (out_dim enc \<le> length (columns outputs) \<longrightarrow>
            decode_label enc outputs =
            decode_label enc (outputs\<lparr>columns := take (out_dim enc) (columns outputs)\<rparr>))"
proof -
  let ?zs = "zip (target_label_names enc) (target_weights enc)"
  have w: "sum_list (map (\<lambda>z. label_width enc (fst z)) ?zs) = out_dim enc"
    using zip_widths [OF assms(1)] out_dim_widths [OF assms(2)] by simp
  have a: "\<exists>e. decode_label enc outputs = Inl e" if "length (columns outputs) < out_dim enc"
    unfolding decode_label_def
    by (rule decode_loop_narrow) (use that w in simp_all)
  have b: "decode_label enc outputs =
      decode_label enc (outputs\<lparr>columns := take (out_dim enc) (columns outputs)\<rparr>)"
  proof -
    have sh: "shape0 (outputs\<lparr>columns := take (out_dim enc) (columns outputs)\<rparr>)
        = shape0 outputs" by simp
    have "decode_loop enc (outputs\<lparr>columns := take (out_dim enc) (columns outputs)\<rparr>) 0 d0 ?zs
        = decode_loop enc outputs 0 d0 ?zs" for d0
      by (rule decode_loop_take) (simp add: w)
    then show ?thesis unfolding decode_label_def sh by simp
  qed
  show ?thesis using a b by blast
qed

theorem decode_label_width_witness:
  "length (target_weights enc_pose) = length (target_label_names enc_pose) \<and>
   distinct (periodic_label_names enc_pose) \<and>
   out_dim enc_pose = 3 \<and>
   length (columns narrow_outputs) = 2 \<and>
   decode_label enc_pose narrow_outputs = Inl IndexError \<and>
   length (columns wide_outputs4) = 4 \<and>
   decode_label enc_pose wide_outputs4 =
     decode_label enc_pose (wide_outputs4\<lparr>columns := [[Fin 0], [Fin 0], [Fin 1]]\<rparr>) \<and>
   (\<exists>d. decode_label enc_pose wide_outputs4 = Inr d \<and>
        d ''x'' = Some [Fin 0] \<and> d ''yaw'' = Some [Fin 0])"
proof -
  have l: "length (target_weights enc_pose) = length (target_label_names enc_pose)"
    and d: "distinct (periodic_label_names enc_pose)"
    by (simp_all add: enc_pose_def)
  have o: "out_dim enc_pose = 3" by (simp add: out_dim_def enc_pose_def)
  have n: "decode_label enc_pose narrow_outputs = Inl IndexError"
    by (simp add: enc_pose_def narrow_outputs_def decode_label_def getitem_def
        decode_norm_def label_lim_def tensor_div_def fsub_def)
  have t: "take (out_dim enc_pose) (columns wide_outputs4) = [[Fin 0], [Fin 0], [Fin 1]]"
    unfolding o by (simp add: wide_outputs4_def numeral_3_eq_3)
  have r: "\<exists>d. decode_label enc_pose wide_outputs4 = Inr d \<and>
        d ''x'' = Some [Fin 0] \<and> d ''yaw'' = Some [Fin 0]"
    by (simp add: enc_pose_def wide_outputs4_def decode_label_def getitem_def
        decode_norm_def label_lim_def tensor_div_def fsub_def decode_circnorm_def
        broadcast2_def atan2_def)
  from decode_label_width [OF l d, of wide_outputs4] l d o n t r show ?thesis
    by (simp add: narrow_outputs_def wide_outputs4_def)
qed

section \<open>The width of an encoded label\<close>

text \<open>
  C6.  The code at a periodic target with the integer weight 2: \<open>out_dim\<close> is 2, yet
  \<open>encode_label\<close> returns four columns, the pair (sin, cos) twice and unscaled, since
  \<open>weight * [sin, cos]\<close> repeats a Python list.  With the default weights
  \<open>np.ones(1)\<close>, floats, the same product is a TypeError.
\<close>

theorem encode_label_periodic_weight:
  "out_dim enc_yaw2 = 2 \<and>
   encode_label enc_yaw2 [''yaw'' \<mapsto> [Fin 0]]
     = Inr \<lparr>shape0 = 1, columns = [[Fin 0], [Fin 1], [Fin 0], [Fin 1]]\<rparr> \<and>
   encode_label (enc_yaw2\<lparr>target_weights := np_ones 1\<rparr>) [''yaw'' \<mapsto> [Fin 0]]
     = Inl TypeError"
  by (simp add: out_dim_def enc_yaw2_def encode_label_def encode_circnorm_def
      torch_cat_def np_ones_def numeral_2_eq_2)

end
